theory Spec2Isabelle
  imports Main
begin

section \<open>Python values, exceptions and the outside world\<close>

text \<open>
  The gateway modules \<^verbatim>\<open>src/proxy_llm.py\<close> and \<^verbatim>\<open>src/llm.py\<close> move JSON-shaped Python
  values around: request bodies, parsed responses, and the value a report call returns.
  One datatype covers them. A dict is an association list in insertion order (its keys
  are distinct in Python); \<open>JNull\<close> is \<^verbatim>\<open>None\<close>. Numbers are the integers, which is
  all the request bodies hold; a text is the list of its characters.
\<close>

datatype json =
    JNull
  | JBool bool
  | JInt int
  | JStr string
  | JArr "json list"
  | JObj "(string \<times> json) list"

text \<open>The exception classes that can arise, by class name.\<close>

datatype exn =
    RetryError
  | ConnectionError
  | HTTPError nat
  | APIError
  | AttributeError
  | KeyError
  | IndexError
  | TypeError
  | ValueError
  | OSError
  | UnicodeEncodeError

text \<open>Truthiness, as \<^verbatim>\<open>if x:\<close> and \<^verbatim>\<open>if not x:\<close> test it.\<close>

fun truthy :: "json \<Rightarrow> bool" where
  "truthy JNull = False"
| "truthy (JBool b) = b"
| "truthy (JInt i) = (i \<noteq> 0)"
| "truthy (JStr s) = (s \<noteq> [])"
| "truthy (JArr xs) = (xs \<noteq> [])"
| "truthy (JObj kvs) = (kvs \<noteq> [])"

text \<open>
  \<^verbatim>\<open>x.get(key, default)\<close>: only a dict has the method; on any other value the attribute
  lookup raises AttributeError.
\<close>

fun py_get :: "json \<Rightarrow> string \<Rightarrow> json \<Rightarrow> exn + json" where
  "py_get (JObj kvs) key dflt = (case map_of kvs key of None \<Rightarrow> Inr dflt | Some v \<Rightarrow> Inr v)"
| "py_get _ key dflt = Inl AttributeError"

text \<open>
  \<^verbatim>\<open>x[key]\<close> with a string key: a dict raises KeyError when the key is missing; lists and
  strings take integer indices only and the remaining values are not subscriptable
  (TypeError).
\<close>

fun py_getitem :: "json \<Rightarrow> string \<Rightarrow> exn + json" where
  "py_getitem (JObj kvs) key = (case map_of kvs key of None \<Rightarrow> Inl KeyError | Some v \<Rightarrow> Inr v)"
| "py_getitem _ key = Inl TypeError"

text \<open>
  \<^verbatim>\<open>x[0]\<close>: the first element of a list, the first character of a string, KeyError on
  a dict (its keys are strings), TypeError elsewhere.
\<close>

fun py_index0 :: "json \<Rightarrow> exn + json" where
  "py_index0 (JArr []) = Inl IndexError"
| "py_index0 (JArr (x # xs)) = Inr x"
| "py_index0 (JStr []) = Inl IndexError"
| "py_index0 (JStr (c # cs)) = Inr (JStr [c])"
| "py_index0 (JObj kvs) = Inl KeyError"
| "py_index0 _ = Inl TypeError"

subsection \<open>Log records\<close>

text \<open>
  A call of \<^verbatim>\<open>LOG.info\<close>, \<^verbatim>\<open>LOG.debug\<close> or \<^verbatim>\<open>LOG.error\<close> appends one record: the level,
  the message with \<^verbatim>\<open>{}\<close> where a value is formatted in, and those values in order.
\<close>

datatype level = DEBUG | INFO | ERROR

datatype log_arg = ArgStr string | ArgVal json | ArgExn exn

datatype log_record = Log level string "log_arg list"

subsection \<open>HTTP requests and what the backend answers\<close>

record http_request =
  rq_method :: string
  rq_url :: string
  rq_headers :: "(string \<times> string) list"
  rq_proxies :: "(string \<times> string) list"
  rq_json :: json
  rq_timeout :: nat

text \<open>
  One attempt either gets an HTTP response (status and parsed JSON body) or fails at
  connection level (refused, reset, timed out).
\<close>

datatype outcome = Answer nat json | NoAnswer

text \<open>
  The vendor SDK call \<^verbatim>\<open>client.chat.completions.create(**data)\<close> either raises or returns
  a completion whose \<^verbatim>\<open>choices\<close> list holds, per candidate, the \<^verbatim>\<open>message.content\<close>
  (a string or \<^verbatim>\<open>None\<close>).
\<close>

datatype sdk_outcome = SdkRaises | SdkCompletion "string option list"

text \<open>
  The world a call runs in. \<open>backend\<close> is the (mocked) HTTP backend: what it answers
  to a request, given how many requests it has received before. \<open>sent\<close> lists the
  requests that went out, oldest first; \<open>sdk_calls\<close> the bodies handed to the vendor
  SDK. \<open>slept\<close> lists the delays the transport waited between attempts, in units of
  the backoff base. \<open>files\<close> is the file system, \<open>writable\<close> says which paths can be
  opened for writing, and \<open>encodable\<close> which characters the locale's encoding can
  write (a file opened without \<^verbatim>\<open>encoding=\<close> uses it). \<open>logged\<close> is the log.
\<close>

record world =
  backend :: "nat \<Rightarrow> http_request \<Rightarrow> outcome"
  sent :: "http_request list"
  slept :: "nat list"
  sdk :: "nat \<Rightarrow> json \<Rightarrow> sdk_outcome"
  sdk_calls :: "json list"
  files :: "string \<Rightarrow> string option"
  writable :: "string \<Rightarrow> bool"
  encodable :: "char \<Rightarrow> bool"
  logged :: "log_record list"

definition LOG :: "level \<Rightarrow> string \<Rightarrow> log_arg list \<Rightarrow> world \<Rightarrow> world" where
  "LOG lv msg args w = w\<lparr>logged := logged w @ [Log lv msg args]\<rparr>"

subsection \<open>\<^verbatim>\<open>json.dump(obj, f, indent=4, ensure_ascii=False)\<close>\<close>

text \<open>
  The text the standard encoder writes. With \<^verbatim>\<open>ensure_ascii=False\<close> a string is quoted
  and only the quote, the backslash and the control characters below 0x20 are escaped;
  every other character is written as it is. With an indent, items are separated by a
  comma and a newline, keys from values by a colon and a space, and an empty list or
  dict is written without a newline.
\<close>

definition hexdigit :: "nat \<Rightarrow> char" where
  "hexdigit n = ''0123456789abcdef'' ! (n mod 16)"

definition escape_char :: "char \<Rightarrow> string" where
  "escape_char c =
     (if c = CHR 0x22 then [CHR 0x5C, CHR 0x22]
      else if c = CHR 0x5C then [CHR 0x5C, CHR 0x5C]
      else if c = CHR 0x0A then [CHR 0x5C, CHR ''n'']
      else if c = CHR 0x0D then [CHR 0x5C, CHR ''r'']
      else if c = CHR 0x09 then [CHR 0x5C, CHR ''t'']
      else if c = CHR 0x08 then [CHR 0x5C, CHR ''b'']
      else if c = CHR 0x0C then [CHR 0x5C, CHR ''f'']
      else if (of_char c :: nat) < 32
        then [CHR 0x5C, CHR ''u'', CHR ''0'', CHR ''0'',
              hexdigit ((of_char c :: nat) div 16), hexdigit (of_char c :: nat)]
      else [c])"

definition encode_basestring :: "string \<Rightarrow> string" where
  "encode_basestring s = [CHR 0x22] @ concat (map escape_char s) @ [CHR 0x22]"

function dec_nat :: "nat \<Rightarrow> string" where
  "dec_nat n = (if n < 10 then [hexdigit n] else dec_nat (n div 10) @ [hexdigit (n mod 10)])"
  by pat_completeness auto
termination
  by (relation "measure id") auto

definition dec_int :: "int \<Rightarrow> string" where
  "dec_int i = (if i < 0 then CHR ''-'' # dec_nat (nat (- i)) else dec_nat (nat i))"

definition newline_indent :: "nat \<Rightarrow> string" where
  "newline_indent lvl = CHR 0x0A # replicate (4 * lvl) CHR '' ''"

text \<open>
  \<^verbatim>\<open>json.dump\<close> does not build the text first: it walks the value and hands the file one
  chunk after the other (\<^verbatim>\<open>for chunk in iterable: fp.write(chunk)\<close>). The chunks are
  those of the encoder's generators. In a list, the opening bracket or the separator
  travels with the next item when that item is a string, a number, a truth value or
  \<^verbatim>\<open>None\<close>, and is a chunk of its own before a nested list or dict; in a dict the
  brace, the indentation, each separator, each key, each colon and each value are
  chunks of their own.
\<close>

fun iterencode :: "nat \<Rightarrow> json \<Rightarrow> string list"
  and iterencode_list :: "nat \<Rightarrow> string \<Rightarrow> json list \<Rightarrow> string list"
  and iterencode_dict :: "nat \<Rightarrow> bool \<Rightarrow> (string \<times> json) list \<Rightarrow> string list" where
  "iterencode lvl JNull = [''null'']"
| "iterencode lvl (JBool b) = [if b then ''true'' else ''false'']"
| "iterencode lvl (JInt i) = [dec_int i]"
| "iterencode lvl (JStr s) = [encode_basestring s]"
| "iterencode lvl (JArr xs) =
     (if xs = [] then [''[]'']
      else iterencode_list (Suc lvl) (''['' @ newline_indent (Suc lvl)) xs
           @ [newline_indent lvl, '']''])"
| "iterencode lvl (JObj kvs) =
     (if kvs = [] then [''{}'']
      else [''{'', newline_indent (Suc lvl)] @ iterencode_dict (Suc lvl) True kvs
           @ [newline_indent lvl, ''}''])"
| "iterencode_list lvl buf [] = []"
| "iterencode_list lvl buf (JArr xs # vs) =
     buf # iterencode lvl (JArr xs) @ iterencode_list lvl ('','' @ newline_indent lvl) vs"
| "iterencode_list lvl buf (JObj kvs # vs) =
     buf # iterencode lvl (JObj kvs) @ iterencode_list lvl ('','' @ newline_indent lvl) vs"
| "iterencode_list lvl buf (JNull # vs) =
     (buf @ ''null'') # iterencode_list lvl ('','' @ newline_indent lvl) vs"
| "iterencode_list lvl buf (JBool b # vs) =
     (buf @ (if b then ''true'' else ''false''))
       # iterencode_list lvl ('','' @ newline_indent lvl) vs"
| "iterencode_list lvl buf (JInt i # vs) =
     (buf @ dec_int i) # iterencode_list lvl ('','' @ newline_indent lvl) vs"
| "iterencode_list lvl buf (JStr s # vs) =
     (buf @ encode_basestring s) # iterencode_list lvl ('','' @ newline_indent lvl) vs"
| "iterencode_dict lvl first [] = []"
| "iterencode_dict lvl first ((k, v) # kvs) =
     (if first then [] else ['','' @ newline_indent lvl])
     @ [encode_basestring k, '': ''] @ iterencode lvl v @ iterencode_dict lvl False kvs"

text \<open>
  The file is a text file: \<^verbatim>\<open>write\<close> encodes the chunk it is given and raises
  UnicodeEncodeError when the chunk holds a character the encoding has not got; the
  chunks written before stay in the file when it is closed. \<open>write_chunks\<close> gives
  whether every chunk went through, and the text written.
\<close>

fun write_chunks :: "(char \<Rightarrow> bool) \<Rightarrow> string list \<Rightarrow> string \<Rightarrow> bool \<times> string" where
  "write_chunks enc [] written = (True, written)"
| "write_chunks enc (chunk # chunks) written =
     (if list_all enc chunk then write_chunks enc chunks (written @ chunk)
      else (False, written))"

text \<open>
  \<^verbatim>\<open>with open(path, "w+") as f: json.dump(obj, f, indent=4, ensure_ascii=False)\<close>:
  opening raises OSError on a path that cannot be opened for writing and empties the
  file otherwise; a chunk that cannot be encoded raises UnicodeEncodeError and leaves
  the file with the chunks before it.
\<close>

definition dump_to_file :: "string \<Rightarrow> json \<Rightarrow> world \<Rightarrow> exn option \<times> world" where
  "dump_to_file path obj w =
     (if \<not> writable w path then (Some OSError, w)
      else
        (case write_chunks (encodable w) (iterencode 0 obj) [] of
           (True, txt) \<Rightarrow> (None, w\<lparr>files := (files w)(path \<mapsto> txt)\<rparr>)
         | (False, txt) \<Rightarrow> (Some UnicodeEncodeError, w\<lparr>files := (files w)(path \<mapsto> txt)\<rparr>)))"

section \<open>The transport client\<close>

text \<open>
  \<^verbatim>\<open>CustomHTTPClient\<close> holds a \<^verbatim>\<open>requests\<close> session. The model keeps what the
  constructor puts into it: the headers and proxies it sets, the retry strategy
  \<^verbatim>\<open>urllib3.Retry(total=max_retries, backoff_factor=1, status_forcelist=[...],
  allowed_methods=[...])\<close> mounted on both schemes, and the timeout. \<open>c_api_key\<close> is the
  attribute \<^verbatim>\<open>self.api_key\<close>, which only the class of \<^verbatim>\<open>llm.py\<close> stores.
\<close>

record Retry =
  total :: nat
  backoff_factor :: nat
  status_forcelist :: "nat list"
  allowed_methods :: "string list"

record CustomHTTPClient =
  c_api_key :: "string option"
  c_headers :: "(string \<times> string) list"
  c_proxies :: "(string \<times> string) list"
  c_retries :: Retry
  c_timeout :: nat

definition DEFAULT_MAX_RETRIES :: nat where
  "DEFAULT_MAX_RETRIES = 5"

definition retry_strategy :: "nat \<Rightarrow> Retry" where
  "retry_strategy max_retries =
     \<lparr>total = max_retries, backoff_factor = 1,
      status_forcelist = [429, 500, 502, 503, 504],
      allowed_methods = [''HEAD'', ''GET'', ''PUT'', ''DELETE'', ''OPTIONS'', ''TRACE'', ''POST'']\<rparr>"

text \<open>\<^verbatim>\<open>if x:\<close> on an optional string: present and not empty.\<close>

fun nonempty :: "string option \<Rightarrow> bool" where
  "nonempty None = False"
| "nonempty (Some s) = (s \<noteq> [])"

text \<open>\<^verbatim>\<open>f"{x}"\<close> on an optional string: \<^verbatim>\<open>None\<close> prints as the word None.\<close>

fun fmt :: "string option \<Rightarrow> string" where
  "fmt None = ''None''"
| "fmt (Some s) = s"

definition proxies_for :: "string option \<Rightarrow> (string \<times> string) list" where
  "proxies_for proxy_url =
     (case proxy_url of
        None \<Rightarrow> []
      | Some p \<Rightarrow> if p = [] then [] else [(''http'', p), (''https'', p)])"

text \<open>The constructor in \<^verbatim>\<open>proxy_llm.py\<close>: the headers are set only under \<^verbatim>\<open>if api_key:\<close>.\<close>

definition proxy_CustomHTTPClient :: "string option \<Rightarrow> string option \<Rightarrow> nat \<Rightarrow> nat \<Rightarrow> CustomHTTPClient" where
  "proxy_CustomHTTPClient api_key proxy_url max_retries timeout =
     \<lparr>c_api_key = None,
      c_headers = (if nonempty api_key
                   then [(''Authorization'', ''Bearer '' @ fmt api_key),
                         (''Content-Type'', ''application/json'')]
                   else []),
      c_proxies = proxies_for proxy_url,
      c_retries = retry_strategy max_retries,
      c_timeout = timeout\<rparr>"

text \<open>The constructor in \<^verbatim>\<open>llm.py\<close>: the headers are always set.\<close>

definition llm_CustomHTTPClient :: "string option \<Rightarrow> string option \<Rightarrow> nat \<Rightarrow> nat \<Rightarrow> CustomHTTPClient" where
  "llm_CustomHTTPClient api_key proxy_url max_retries timeout =
     \<lparr>c_api_key = api_key,
      c_headers = [(''Authorization'', ''Bearer '' @ fmt api_key),
                   (''Content-Type'', ''application/json'')],
      c_proxies = proxies_for proxy_url,
      c_retries = retry_strategy max_retries,
      c_timeout = timeout\<rparr>"

text \<open>
  Modelled from the spec: the backoff schedule of \<^verbatim>\<open>urllib3.Retry\<close> (not under src/),
  of which the source sets only \<^verbatim>\<open>backoff_factor=1\<close>. In the spec's words attempt \<open>n\<close>
  waits \<open>n \<times> base\<close> before the next try, \<open>base\<close> being the backoff factor.
\<close>

definition backoff_delay :: "nat \<Rightarrow> nat \<Rightarrow> nat" where
  "backoff_delay base n = n * base"

text \<open>
  Modelled from the spec: \<^verbatim>\<open>session.request\<close>, that is the retry loop of the mounted
  \<^verbatim>\<open>HTTPAdapter\<close> (the \<^verbatim>\<open>requests\<close> and \<^verbatim>\<open>urllib3\<close> packages, not under src/). The
  spec's Transport Client retries on a response status in the force list and on
  connection-level failures, up to \<open>total\<close> additional attempts, with the same request
  on every attempt; when the budget is spent the failure surfaces, here as the
  exception the source catches. Between two attempts the client waits, and the wait
  is recorded in \<open>slept\<close>. \<open>send_attempts n left\<close> makes attempt number \<open>n\<close> (counted
  from 1) with \<open>left\<close> retries remaining.
\<close>

fun send_attempts :: "nat \<Rightarrow> nat \<Rightarrow> Retry \<Rightarrow> http_request \<Rightarrow> world \<Rightarrow> (exn + nat \<times> json) \<times> world" where
  "send_attempts n left retries req w =
     (let w' = w\<lparr>sent := sent w @ [req]\<rparr>;
          w'' = w'\<lparr>slept := slept w' @ [backoff_delay (backoff_factor retries) n]\<rparr> in
      case backend w (length (sent w)) req of
        NoAnswer \<Rightarrow>
          (case left of
             0 \<Rightarrow> (Inl ConnectionError, w')
           | Suc l \<Rightarrow> send_attempts (Suc n) l retries req w'')
      | Answer st body \<Rightarrow>
          if st \<in> set (status_forcelist retries)
          then (case left of
                  0 \<Rightarrow> (Inl RetryError, w')
                | Suc l \<Rightarrow> send_attempts (Suc n) l retries req w'')
          else (Inr (st, body), w'))"

definition prepare_request :: "CustomHTTPClient \<Rightarrow> string \<Rightarrow> string \<Rightarrow> json \<Rightarrow> nat \<Rightarrow> http_request" where
  "prepare_request self method url json_data timeout =
     \<lparr>rq_method = method, rq_url = url, rq_headers = c_headers self,
      rq_proxies = c_proxies self, rq_json = json_data, rq_timeout = timeout\<rparr>"

definition session_request :: "CustomHTTPClient \<Rightarrow> string \<Rightarrow> string \<Rightarrow> json \<Rightarrow> nat \<Rightarrow> world \<Rightarrow> (exn + nat \<times> json) \<times> world" where
  "session_request self method url json_data timeout w =
     send_attempts 1 (total (c_retries self)) (c_retries self)
       (prepare_request self method url json_data timeout) w"

text \<open>
  \<^verbatim>\<open>CustomHTTPClient.request\<close>, the same in both modules. \<^verbatim>\<open>raise_for_status\<close> raises
  HTTPError on a status from 400 to 599; every \<^verbatim>\<open>RequestException\<close> is logged and
  turned into the empty dict. The body of an answer is taken as already parsed
  (\<^verbatim>\<open>response.json()\<close> succeeds).
\<close>

definition request :: "CustomHTTPClient \<Rightarrow> string \<Rightarrow> string \<Rightarrow> json \<Rightarrow> world \<Rightarrow> json \<times> world" where
  "request self method url json_data w =
     (case session_request self method url json_data (c_timeout self) w of
        (Inl e, w') \<Rightarrow> (JObj [], LOG ERROR ''Request failed: {}'' [ArgExn e] w')
      | (Inr (st, body), w') \<Rightarrow>
          if 400 \<le> st \<and> st < 600
          then (JObj [], LOG ERROR ''Request failed: {}'' [ArgExn (HTTPError st)] w')
          else (body, w'))"

text \<open>A client object is the vendor SDK's or the transport client.\<close>

datatype client = OpenAI | Custom CustomHTTPClient

text \<open>
  The vendor branch of both modules:
  \<^verbatim>\<open>client.chat.completions.create(**data)\<close>, a debug record of the response (the two
  modules differ in the template they pass), then
  \<^verbatim>\<open>response.choices[0].message.content\<close>. One call of the SDK is one entry of
  \<open>sdk_calls\<close>.
\<close>

definition completions_create :: "string \<Rightarrow> json \<Rightarrow> world \<Rightarrow> (exn + json) \<times> world" where
  "completions_create template data w =
     (let w' = w\<lparr>sdk_calls := sdk_calls w @ [data]\<rparr> in
      case sdk w (length (sdk_calls w)) data of
        SdkRaises \<Rightarrow> (Inl APIError, w')
      | SdkCompletion choices \<Rightarrow>
          (let w'' = LOG DEBUG template [ArgVal (JArr (map (\<lambda>c. case c of None \<Rightarrow> JNull | Some s \<Rightarrow> JStr s) choices))] w' in
           case choices of
             [] \<Rightarrow> (Inl IndexError, w'')
           | c # cs \<Rightarrow> (Inr (case c of None \<Rightarrow> JNull | Some s \<Rightarrow> JStr s), w'')))"

section \<open>The gateway of \<^verbatim>\<open>proxy_llm.py\<close>\<close>

definition API_URL :: string where
  "API_URL = ''https://api.yesapikey.com/v1/chat/completions''"

definition OLLAMA_API_URL :: string where
  "OLLAMA_API_URL = ''http://localhost:11434/api/chat''"

definition proxy_DEFAULT_TIMEOUT :: nat where
  "proxy_DEFAULT_TIMEOUT = 2000"

text \<open>The dict \<^verbatim>\<open>data\<close> and the URL that \<^verbatim>\<open>_get_response\<close> builds before the \<^verbatim>\<open>try\<close>.\<close>

definition proxy_data :: "string \<Rightarrow> string \<Rightarrow> json \<Rightarrow> json" where
  "proxy_data model_type model_name messages =
     (if model_type = ''ollama''
      then JObj [(''model'', JStr model_name), (''messages'', messages),
                 (''max_tokens'', JInt 10000), (''context_length'', JInt 10000),
                 (''top_p'', JInt 1), (''temperature'', JInt 1), (''stream'', JBool False)]
      else JObj [(''model'', JStr model_name), (''messages'', messages),
                 (''temperature'', JInt 1), (''max_tokens'', JInt 100), (''top_p'', JInt 1)])"

definition request_api_url :: "string \<Rightarrow> string" where
  "request_api_url model_type = (if model_type = ''ollama'' then OLLAMA_API_URL else API_URL)"

text \<open>
  \<^verbatim>\<open>response.text\<close> inside the f-string of the ollama branch: \<^verbatim>\<open>response\<close> is what
  \<^verbatim>\<open>client.request\<close> returned, a parsed JSON value, and no such value has the attribute.
  The f-string is the argument of \<^verbatim>\<open>LOG.error\<close>, so it is evaluated before the record
  is written and before the \<^verbatim>\<open>raise ValueError\<close> that follows. The message of that
  record is Chinese in the source and is given in English below.
\<close>

definition response_text :: "json \<Rightarrow> exn + string" where
  "response_text response = Inl AttributeError"

text \<open>
  The body of the \<^verbatim>\<open>try\<close> in \<^verbatim>\<open>_get_response\<close>: \<open>Inl e\<close> when it raises \<open>e\<close>,
  \<open>Inr (Some v)\<close> when it returns \<open>v\<close>, \<open>Inr None\<close> when control leaves it without a
  \<^verbatim>\<open>return\<close>. A client of the wrong class for the branch has not got the attribute or
  the signature that is called.
\<close>

definition proxy_try :: "client \<Rightarrow> string \<Rightarrow> json \<Rightarrow> world \<Rightarrow> (exn + json option) \<times> world" where
  "proxy_try cl model_type data w =
     (if model_type = ''openai'' then
        (case cl of
           Custom c \<Rightarrow> (Inl AttributeError, w)
         | OpenAI \<Rightarrow>
             (case completions_create ''GPT response: %s'' data w of
                (Inl e, w') \<Rightarrow> (Inl e, w')
              | (Inr v, w') \<Rightarrow> (Inr (Some v), w')))
      else
        (case cl of
           OpenAI \<Rightarrow> (Inl TypeError, w)
         | Custom c \<Rightarrow>
             (case request c ''POST'' (request_api_url model_type) data w of
                (response, w') \<Rightarrow>
                  if model_type = ''yesapi'' then
                    (case py_get response ''choices'' JNull of
                       Inl e \<Rightarrow> (Inl e, w')
                     | Inr choices \<Rightarrow>
                         if truthy choices then
                           (case py_index0 choices of
                              Inl e \<Rightarrow> (Inl e, w')
                            | Inr choice \<Rightarrow>
                                (case py_getitem choice ''message'' of
                                   Inl e \<Rightarrow> (Inl e, w')
                                 | Inr message \<Rightarrow>
                                     (case py_getitem message ''content'' of
                                        Inl e \<Rightarrow> (Inl e, w')
                                      | Inr content \<Rightarrow> (Inr (Some content), w'))))
                         else (Inr (Some (JStr [])),
                               LOG ERROR ''No choices found in the response.'' [] w'))
                  else if model_type = ''ollama'' then
                    (case py_get response ''message'' (JObj []) of
                       Inl e \<Rightarrow> (Inl e, w')
                     | Inr message \<Rightarrow>
                         (case py_get message ''content'' JNull of
                            Inl e \<Rightarrow> (Inl e, w')
                          | Inr message_content \<Rightarrow>
                              if truthy message_content then (Inr (Some message_content), w')
                              else
                                (case response_text response of
                                   Inl e \<Rightarrow> (Inl e, w')
                                 | Inr txt \<Rightarrow>
                                     (Inl ValueError,
                                      LOG ERROR ''cannot extract the report content from the response. {}'' [ArgStr txt] w'))))
                  else (Inr None, w'))))"

text \<open>\<^verbatim>\<open>_get_response\<close>: every exception of the body is logged and the empty string returned.\<close>

definition proxy_get_response :: "client \<Rightarrow> string \<Rightarrow> string \<Rightarrow> json \<Rightarrow> world \<Rightarrow> json \<times> world" where
  "proxy_get_response cl model_type model_name messages w =
     (case proxy_try cl model_type (proxy_data model_type model_name messages) w of
        (Inl e, w') \<Rightarrow>
          (JStr [], LOG ERROR ''An error occurred while getting the response: {}'' [ArgExn e] w')
      | (Inr None, w') \<Rightarrow> (JStr [], w')
      | (Inr (Some v), w') \<Rightarrow> (v, w'))"

text \<open>
  The object \<^verbatim>\<open>LLM\<close>. An attribute the constructor did not assign is \<open>None\<close>:
  \<open>p_client\<close> for a model type other than the three known ones, \<open>p_proxy_url\<close> and
  \<open>p_api_key\<close> outside their branches.
\<close>

record proxy_LLM =
  p_max_retries :: nat
  p_timeout :: nat
  p_prompt_file_path :: string
  p_model_type :: string
  p_model_name :: string
  p_client :: "client option"
  p_proxy_url :: "string option"
  p_api_key :: "string option"
  p_default_prompt :: string

text \<open>
  The process environment the constructors read: \<open>getenv\<close> is \<^verbatim>\<open>os.getenv\<close>, and
  \<open>sdk_ready\<close> says whether the vendor's \<^verbatim>\<open>OpenAI()\<close> can be built (it raises otherwise).
\<close>

record environ =
  getenv :: "string \<Rightarrow> string option"
  sdk_ready :: bool

text \<open>The keyword arguments of \<^verbatim>\<open>LLM(...)\<close> with their defaults.\<close>

record proxy_args =
  a_max_retries :: nat
  a_model_type :: string
  a_model_name :: string
  a_prompt_file_path :: string
  a_timeout :: nat

definition proxy_defaults :: proxy_args where
  "proxy_defaults =
     \<lparr>a_max_retries = DEFAULT_MAX_RETRIES, a_model_type = ''openai'',
      a_model_name = ''gpt-4o-mini'',
      a_prompt_file_path = ''prompts/github_openai_report_prompt.txt'',
      a_timeout = proxy_DEFAULT_TIMEOUT\<rparr>"

text \<open>
  \<^verbatim>\<open>LLM.__init__\<close>: the client by model type, then the prompt file is read (a missing
  file raises). \<^verbatim>\<open>LOG.add\<close> installs a log sink and is left out.
\<close>

definition proxy_LLM_init :: "proxy_args \<Rightarrow> environ \<Rightarrow> world \<Rightarrow> exn + proxy_LLM" where
  "proxy_LLM_init a env w =
     (let self = \<lparr>p_max_retries = a_max_retries a, p_timeout = a_timeout a,
                  p_prompt_file_path = a_prompt_file_path a, p_model_type = a_model_type a,
                  p_model_name = a_model_name a, p_client = None, p_proxy_url = None,
                  p_api_key = None, p_default_prompt = []\<rparr>;
          made =
            (if a_model_type a = ''openai'' then
               (if sdk_ready env then Inr (self\<lparr>p_client := Some OpenAI\<rparr>) else Inl APIError)
             else if a_model_type a = ''yesapi'' then
               Inr (self\<lparr>p_proxy_url := Some API_URL,
                         p_api_key := getenv env ''OPENAI_API_KEY'',
                         p_client := Some (Custom (proxy_CustomHTTPClient
                            (getenv env ''OPENAI_API_KEY'') (Some API_URL)
                            (a_max_retries a) (a_timeout a)))\<rparr>)
             else if a_model_type a = ''ollama'' then
               Inr (self\<lparr>p_proxy_url := Some OLLAMA_API_URL,
                         p_client := Some (Custom (proxy_CustomHTTPClient
                            None (Some OLLAMA_API_URL) (a_max_retries a) (a_timeout a)))\<rparr>)
             else Inr self)
      in case made of
           Inl e \<Rightarrow> Inl e
         | Inr self' \<Rightarrow>
             (case files w (a_prompt_file_path a) of
                None \<Rightarrow> Inl OSError
              | Some txt \<Rightarrow> Inr (self'\<lparr>p_default_prompt := txt\<rparr>)))"

text \<open>\<^verbatim>\<open>if not prompt: prompt = self.default_prompt\<close>.\<close>

definition effective_prompt :: "string option \<Rightarrow> string \<Rightarrow> string" where
  "effective_prompt prompt default_prompt =
     (case prompt of
        None \<Rightarrow> default_prompt
      | Some p \<Rightarrow> if p = [] then default_prompt else p)"

text \<open>The list \<^verbatim>\<open>messages\<close>.\<close>

definition conversation :: "string \<Rightarrow> string \<Rightarrow> json" where
  "conversation prompt markdown_content =
     JArr [JObj [(''role'', JStr ''system''), (''content'', JStr prompt)],
           JObj [(''role'', JStr ''user''), (''content'', JStr markdown_content)]]"

text \<open>
  The two public methods return the value handed back (or the exception that leaves
  the method), the object \<^verbatim>\<open>self\<close> as the call leaves it, and the world. An exception
  of the \<^verbatim>\<open>with\<close> block of the dry run is not caught and leaves the method.
\<close>

definition generate_github_daily_report :: "proxy_LLM \<Rightarrow> string \<Rightarrow> string option \<Rightarrow> bool \<Rightarrow> world \<Rightarrow> (exn + json) \<times> proxy_LLM \<times> world" where
  "generate_github_daily_report self markdown_content prompt dry_run w =
     (let messages = conversation (effective_prompt prompt (p_default_prompt self)) markdown_content in
      if dry_run then
        (let w1 = LOG INFO ''Dry run mode enabled. Saving prompt to file.'' [] w in
         case dump_to_file (p_prompt_file_path self) messages w1 of
           (Some e, w2) \<Rightarrow> (Inl e, self, w2)
         | (None, w2) \<Rightarrow>
             (Inr (JStr ''DRY RUN''), self,
              LOG DEBUG ''Prompt saved to {}'' [ArgStr (p_prompt_file_path self)] w2))
      else
        (let w1 = LOG INFO ''Starting report generation using {}--{} model.''
                    [ArgStr (p_model_type self), ArgStr (p_model_name self)] w in
         case p_client self of
           None \<Rightarrow> (Inl AttributeError, self, w1)
         | Some cl \<Rightarrow>
             (case proxy_get_response cl (p_model_type self) (p_model_name self) messages w1 of
                (response_content, w2) \<Rightarrow>
                  if truthy response_content
                  then (Inr response_content, self,
                        LOG DEBUG ''GPT response: {}'' [ArgVal response_content] w2)
                  else (Inr (JStr []), self,
                        LOG ERROR ''Failed to get a valid response from the GPT model.'' [] w2))))"

definition generate_hn_daily_report :: "proxy_LLM \<Rightarrow> string \<Rightarrow> string option \<Rightarrow> bool \<Rightarrow> world \<Rightarrow> (exn + json) \<times> proxy_LLM \<times> world" where
  "generate_hn_daily_report self markdown_content prompt dry_run w =
     (let messages = conversation (effective_prompt prompt (p_default_prompt self)) markdown_content in
      if dry_run then
        (let w1 = LOG INFO ''Dry run mode enabled. Saving prompt to file.'' [] w in
         case dump_to_file (p_prompt_file_path self) messages w1 of
           (Some e, w2) \<Rightarrow> (Inl e, self, w2)
         | (None, w2) \<Rightarrow>
             (Inr (JStr ''DRY RUN''), self,
              LOG DEBUG ''Prompt saved to {}'' [ArgStr (p_prompt_file_path self)] w2))
      else
        (let w1 = LOG INFO ''Starting report generation using {}--{} model.''
                    [ArgStr (p_model_type self), ArgStr (p_model_name self)] w in
         case p_client self of
           None \<Rightarrow> (Inl AttributeError, self, w1)
         | Some cl \<Rightarrow>
             (case proxy_get_response cl (p_model_type self) (p_model_name self) messages w1 of
                (response_content, w2) \<Rightarrow>
                  if truthy response_content
                  then (Inr response_content, self,
                        LOG DEBUG ''GPT response: {}'' [ArgVal response_content] w2)
                  else (Inr (JStr []), self,
                        LOG ERROR ''Failed to get a valid response from the GPT model.'' [] w2))))"

section \<open>The gateway of \<^verbatim>\<open>llm.py\<close>\<close>

definition MODEL_NAME :: string where
  "MODEL_NAME = ''gpt-4o-mini''"

definition llm_DEFAULT_TIMEOUT :: nat where
  "llm_DEFAULT_TIMEOUT = 30"

definition llm_data :: "json \<Rightarrow> json" where
  "llm_data messages =
     JObj [(''model'', JStr MODEL_NAME), (''messages'', messages),
           (''temperature'', JInt 1), (''max_tokens'', JInt 1000), (''top_p'', JInt 1)]"

text \<open>
  The body of the \<^verbatim>\<open>try\<close> in \<^verbatim>\<open>_get_response\<close> of \<^verbatim>\<open>llm.py\<close>, which picks the branch by
  the class of the client.
\<close>

definition llm_try :: "client \<Rightarrow> json \<Rightarrow> world \<Rightarrow> (exn + json option) \<times> world" where
  "llm_try cl data w =
     (case cl of
        OpenAI \<Rightarrow>
          (case completions_create ''GPT response: {}'' data w of
             (Inl e, w') \<Rightarrow> (Inl e, w')
           | (Inr v, w') \<Rightarrow> (Inr (Some v), w'))
      | Custom c \<Rightarrow>
          (case request c ''POST'' API_URL data w of
             (response, w') \<Rightarrow>
               if \<not> truthy response
               then (Inr None, LOG ERROR ''No choices found in the response.'' [] w')
               else
                 (case py_get response ''choices'' JNull of
                    Inl e \<Rightarrow> (Inl e, w')
                  | Inr got \<Rightarrow>
                      if \<not> truthy got
                      then (Inr None, LOG ERROR ''No choices found in the response.'' [] w')
                      else
                        (case py_getitem response ''choices'' of
                           Inl e \<Rightarrow> (Inl e, w')
                         | Inr choices \<Rightarrow>
                             (case py_index0 choices of
                                Inl e \<Rightarrow> (Inl e, w')
                              | Inr choice \<Rightarrow>
                                  (case py_getitem choice ''message'' of
                                     Inl e \<Rightarrow> (Inl e, w')
                                   | Inr message \<Rightarrow>
                                       (case py_getitem message ''content'' of
                                          Inl e \<Rightarrow> (Inl e, w')
                                        | Inr content \<Rightarrow> (Inr (Some content), w'))))))))"

definition llm_get_response :: "client \<Rightarrow> json \<Rightarrow> world \<Rightarrow> json \<times> world" where
  "llm_get_response cl messages w =
     (case llm_try cl (llm_data messages) w of
        (Inl e, w') \<Rightarrow>
          (JStr [], LOG ERROR ''An error occurred while getting the response: {}'' [ArgExn e] w')
      | (Inr None, w') \<Rightarrow> (JStr [], w')
      | (Inr (Some v), w') \<Rightarrow> (v, w'))"

record LLM =
  proxy_url :: "string option"
  max_retries :: nat
  timeout :: nat
  api_key :: "string option"
  client :: client
  default_prompt :: string

text \<open>
  \<^verbatim>\<open>LLM.__init__\<close> of \<^verbatim>\<open>llm.py\<close>: the transport client when \<^verbatim>\<open>OPENAI_PROXY_URL\<close> is set
  and not empty, the vendor SDK otherwise; the prompt is read from a fixed path.
\<close>

definition llm_prompt_path :: string where
  "llm_prompt_path = ''./../prompts/report_prompt.txt''"

definition LLM_init :: "nat \<Rightarrow> nat \<Rightarrow> environ \<Rightarrow> world \<Rightarrow> exn + LLM" where
  "LLM_init max_retries_arg timeout_arg env w =
     (let url = getenv env ''OPENAI_PROXY_URL''; key = getenv env ''OPENAI_API_KEY'' in
      if \<not> nonempty url \<and> \<not> sdk_ready env then Inl APIError
      else
        (case files w llm_prompt_path of
           None \<Rightarrow> Inl OSError
         | Some txt \<Rightarrow>
             Inr \<lparr>proxy_url = url, max_retries = max_retries_arg, timeout = timeout_arg,
                  api_key = key,
                  client = (if nonempty url
                            then Custom (llm_CustomHTTPClient key url max_retries_arg timeout_arg)
                            else OpenAI),
                  default_prompt = txt\<rparr>))"

definition dry_run_path :: string where
  "dry_run_path = ''daily_progress/prompt.txt''"

definition generate_daily_report :: "LLM \<Rightarrow> string \<Rightarrow> string option \<Rightarrow> bool \<Rightarrow> world \<Rightarrow> (exn + json) \<times> LLM \<times> world" where
  "generate_daily_report self markdown_content prompt dry_run w =
     (let messages = conversation (effective_prompt prompt (default_prompt self)) markdown_content in
      if dry_run then
        (let w1 = LOG INFO ''Dry run mode enabled. Saving prompt to file.'' [] w in
         case dump_to_file dry_run_path messages w1 of
           (Some e, w2) \<Rightarrow> (Inl e, self, w2)
         | (None, w2) \<Rightarrow>
             (Inr (JStr ''DRY RUN''), self,
              LOG DEBUG ''Prompt saved to daily_progress/prompt.txt'' [] w2))
      else
        (let w1 = LOG INFO ''Starting report generation using GPT model.'' [] w in
         case llm_get_response (client self) messages w1 of
           (response_content, w2) \<Rightarrow>
             if truthy response_content
             then (Inr response_content, self,
                   LOG DEBUG ''GPT response: {}'' [ArgVal response_content] w2)
             else (Inr (JStr []), self,
                   LOG ERROR ''Failed to get a valid response from the GPT model.'' [] w2)))"

section \<open>Notions of the specification\<close>

text \<open>
  The wire formats of the responses, as the specification words them: a Forwarded
  response is a JSON object with \<^verbatim>\<open>choices[0].message.content\<close>, a Local response a JSON
  object with \<^verbatim>\<open>message.content\<close>. \<open>member\<close> reads a member of an object and
  \<open>first_item\<close> the first item of an array; both are \<open>None\<close> on any other value.
\<close>

fun member :: "json \<Rightarrow> string \<Rightarrow> json option" where
  "member (JObj kvs) k = map_of kvs k"
| "member _ k = None"

fun first_item :: "json \<Rightarrow> json option" where
  "first_item (JArr (x # xs)) = Some x"
| "first_item _ = None"

definition forwarded_content :: "json \<Rightarrow> json option" where
  "forwarded_content body =
     (case member body ''choices'' of
        None \<Rightarrow> None
      | Some choices \<Rightarrow>
          (case first_item choices of
             None \<Rightarrow> None
           | Some choice \<Rightarrow>
               (case member choice ''message'' of
                  None \<Rightarrow> None
                | Some message \<Rightarrow> member message ''content'')))"

definition local_content :: "json \<Rightarrow> json option" where
  "local_content body =
     (case member body ''message'' of
        None \<Rightarrow> None
      | Some message \<Rightarrow> member message ''content'')"

definition content_field :: "string \<Rightarrow> json \<Rightarrow> json option" where
  "content_field model_type body =
     (if model_type = ''ollama'' then local_content body else forwarded_content body)"

text \<open>
  Mocked backends. \<open>http_answers w i st body\<close>: the \<open>i\<close>-th request from now on is
  answered with status \<open>st\<close> and body \<open>body\<close>, whatever the request.
  \<open>sdk_answers w choices\<close>: the next SDK call returns a completion with these
  candidates. \<open>retryable\<close>: the outcomes on which the transport tries again.
\<close>

definition http_answers :: "world \<Rightarrow> nat \<Rightarrow> nat \<Rightarrow> json \<Rightarrow> bool" where
  "http_answers w i st body \<longleftrightarrow> (\<forall>req. backend w (length (sent w) + i) req = Answer st body)"

definition sdk_answers :: "world \<Rightarrow> string option list \<Rightarrow> bool" where
  "sdk_answers w choices \<longleftrightarrow> (\<forall>data. sdk w (length (sdk_calls w)) data = SdkCompletion choices)"

definition retryable :: "nat list \<Rightarrow> outcome \<Rightarrow> bool" where
  "retryable forcelist out =
     (case out of NoAnswer \<Rightarrow> True | Answer st body \<Rightarrow> st \<in> set forcelist)"

text \<open>
  The text of a dumped two-message conversation, written out: what the dry-run file
  looks like for a system prompt and a digest. The two texts appear quoted and
  escaped by \<open>encode_basestring\<close>; everything else is fixed.
\<close>

definition conversation_text :: "string \<Rightarrow> string \<Rightarrow> string" where
  "conversation_text system user =
     ''['' @ [CHR 0x0A]
     @ ''    {'' @ [CHR 0x0A]
     @ ''        '' @ [CHR 0x22] @ ''role'' @ [CHR 0x22] @ '': ''
         @ [CHR 0x22] @ ''system'' @ [CHR 0x22] @ '','' @ [CHR 0x0A]
     @ ''        '' @ [CHR 0x22] @ ''content'' @ [CHR 0x22] @ '': ''
         @ encode_basestring system @ [CHR 0x0A]
     @ ''    },'' @ [CHR 0x0A]
     @ ''    {'' @ [CHR 0x0A]
     @ ''        '' @ [CHR 0x22] @ ''role'' @ [CHR 0x22] @ '': ''
         @ [CHR 0x22] @ ''user'' @ [CHR 0x22] @ '','' @ [CHR 0x0A]
     @ ''        '' @ [CHR 0x22] @ ''content'' @ [CHR 0x22] @ '': ''
         @ encode_basestring user @ [CHR 0x0A]
     @ ''    }'' @ [CHR 0x0A]
     @ '']''"
section \<open>Concrete gateways and worlds\<close>

text \<open>
  The scenario of the specification: the digest \<^verbatim>\<open>- fix bug #1\n- add feature #2\<close>, the
  default prompt \<^verbatim>\<open>Summarize the following:\<close>, and a backend whose content field holds
  \<^verbatim>\<open>Two changes landed.\<close> The worlds below start with nothing sent and nothing logged;
  \<open>scripted\<close> takes the answers of the HTTP backend by attempt number and the
  candidates the SDK returns.
\<close>

definition example_digest :: string where
  "example_digest = ''- fix bug #1'' @ [CHR 0x0A] @ ''- add feature #2''"

definition example_prompt :: string where
  "example_prompt = ''Summarize the following:''"

definition example_files :: "string \<Rightarrow> string option" where
  "example_files path =
     (if path = ''prompts/github_openai_report_prompt.txt'' \<or> path = ''./../prompts/report_prompt.txt''
      then Some example_prompt else None)"

definition scripted :: "(nat \<Rightarrow> outcome) \<Rightarrow> string option list \<Rightarrow> world" where
  "scripted script choices =
     \<lparr>backend = (\<lambda>n req. script n), sent = [], slept = [],
      sdk = (\<lambda>n data. SdkCompletion choices), sdk_calls = [],
      files = example_files, writable = (\<lambda>path. True), encodable = (\<lambda>c. True),
      logged = []\<rparr>"

definition read_only :: "world \<Rightarrow> world" where
  "read_only w = w\<lparr>writable := (\<lambda>path. False)\<rparr>"

definition forwarded_body :: "string \<Rightarrow> json" where
  "forwarded_body c =
     JObj [(''choices'', JArr [JObj [(''message'',
        JObj [(''role'', JStr ''assistant''), (''content'', JStr c)])]])]"

definition local_body :: "string \<Rightarrow> json" where
  "local_body c = JObj [(''message'', JObj [(''role'', JStr ''assistant''), (''content'', JStr c)])]"

definition with_key :: environ where
  "with_key = \<lparr>getenv = (\<lambda>name. if name = ''OPENAI_API_KEY'' then Some ''sk-test'' else None),
               sdk_ready = True\<rparr>"

definition without_key :: environ where
  "without_key = \<lparr>getenv = (\<lambda>name. None), sdk_ready = True\<rparr>"

definition with_proxy :: environ where
  "with_proxy =
     \<lparr>getenv = (\<lambda>name. if name = ''OPENAI_API_KEY'' then Some ''sk-test''
                       else if name = ''OPENAI_PROXY_URL'' then Some ''http://127.0.0.1:7890''
                       else None),
      sdk_ready = True\<rparr>"

text \<open>
  The gateways the constructor of \<^verbatim>\<open>proxy_llm.py\<close> builds for the three model types
  with all other arguments at their defaults, in the environment \<open>with_key\<close> (the last
  one in \<open>without_key\<close>), and the two gateways of \<^verbatim>\<open>llm.py\<close>.
\<close>

definition args_for :: "string \<Rightarrow> proxy_args" where
  "args_for model_type = proxy_defaults\<lparr>a_model_type := model_type\<rparr>"

definition openai_gateway :: proxy_LLM where
  "openai_gateway =
     \<lparr>p_max_retries = 5, p_timeout = 2000,
      p_prompt_file_path = ''prompts/github_openai_report_prompt.txt'',
      p_model_type = ''openai'', p_model_name = ''gpt-4o-mini'',
      p_client = Some OpenAI, p_proxy_url = None, p_api_key = None,
      p_default_prompt = example_prompt\<rparr>"

definition yesapi_gateway :: proxy_LLM where
  "yesapi_gateway =
     \<lparr>p_max_retries = 5, p_timeout = 2000,
      p_prompt_file_path = ''prompts/github_openai_report_prompt.txt'',
      p_model_type = ''yesapi'', p_model_name = ''gpt-4o-mini'',
      p_client = Some (Custom (proxy_CustomHTTPClient (Some ''sk-test'') (Some API_URL) 5 2000)),
      p_proxy_url = Some API_URL, p_api_key = Some ''sk-test'',
      p_default_prompt = example_prompt\<rparr>"

definition ollama_gateway :: proxy_LLM where
  "ollama_gateway =
     \<lparr>p_max_retries = 5, p_timeout = 2000,
      p_prompt_file_path = ''prompts/github_openai_report_prompt.txt'',
      p_model_type = ''ollama'', p_model_name = ''gpt-4o-mini'',
      p_client = Some (Custom (proxy_CustomHTTPClient None (Some OLLAMA_API_URL) 5 2000)),
      p_proxy_url = Some OLLAMA_API_URL, p_api_key = None,
      p_default_prompt = example_prompt\<rparr>"

definition keyless_gateway :: proxy_LLM where
  "keyless_gateway =
     \<lparr>p_max_retries = 5, p_timeout = 2000,
      p_prompt_file_path = ''prompts/github_openai_report_prompt.txt'',
      p_model_type = ''yesapi'', p_model_name = ''gpt-4o-mini'',
      p_client = Some (Custom (proxy_CustomHTTPClient None (Some API_URL) 5 2000)),
      p_proxy_url = Some API_URL, p_api_key = None,
      p_default_prompt = example_prompt\<rparr>"

definition llm_proxy_gateway :: LLM where
  "llm_proxy_gateway =
     \<lparr>proxy_url = Some ''http://127.0.0.1:7890'', max_retries = 5, timeout = 30,
      api_key = Some ''sk-test'',
      client = Custom (llm_CustomHTTPClient (Some ''sk-test'') (Some ''http://127.0.0.1:7890'') 5 30),
      default_prompt = example_prompt\<rparr>"

definition llm_sdk_gateway :: LLM where
  "llm_sdk_gateway =
     \<lparr>proxy_url = None, max_retries = 5, timeout = 30, api_key = Some ''sk-test'',
      client = OpenAI, default_prompt = example_prompt\<rparr>"

text \<open>
  Worlds with a fixed backend: one that answers every attempt with status 500, one
  that answers 200 with an empty \<^verbatim>\<open>choices\<close> list, one that answers 200 with the
  content of the scenario, two that answer an \<^verbatim>\<open>ollama\<close> call with a JSON object
  that has no \<^verbatim>\<open>message.content\<close>, and one whose \<^verbatim>\<open>message.content\<close> is the number 5.
  Further down a world without a backend, one where no file can be opened for
  writing, and one whose encoding has the ASCII characters only.
\<close>

definition failing_world :: world where
  "failing_world = scripted (\<lambda>n. Answer 500 JNull) []"

definition no_choices_world :: world where
  "no_choices_world = scripted (\<lambda>n. Answer 200 (JObj [(''choices'', JArr [])])) []"

definition answering_world :: world where
  "answering_world = scripted (\<lambda>n. Answer 200 (forwarded_body ''Two changes landed.'')) []"

definition empty_object_world :: world where
  "empty_object_world = scripted (\<lambda>n. Answer 200 (JObj [(''done'', JBool True)])) []"

definition no_content_world :: world where
  "no_content_world =
     scripted (\<lambda>n. Answer 200 (JObj [(''message'', JObj [(''role'', JStr ''assistant'')])])) []"

definition idle_world :: world where
  "idle_world = scripted (\<lambda>n. NoAnswer) []"

definition numeric_content_world :: world where
  "numeric_content_world =
     scripted (\<lambda>n. Answer 200 (JObj [(''message'', JObj [(''content'', JInt 5)])])) []"

definition read_only_world :: world where
  "read_only_world = read_only idle_world"

definition ascii_world :: world where
  "ascii_world = idle_world\<lparr>encodable := (\<lambda>c. (of_char c :: nat) < 128)\<rparr>"

text \<open>
  A text that meets every case of the string escaping: a quote, a backslash, the five
  control characters with a short escape, one without (0x1F), and a letter. And a
  text with a character outside ASCII.
\<close>

definition tricky_text :: string where
  "tricky_text = [CHR 0x22, CHR 0x5C, CHR 0x0A, CHR 0x0D, CHR 0x09, CHR 0x08, CHR 0x0C, CHR 0x1F, CHR ''a'']"

definition accented_text :: string where
  "accented_text = [CHR ''r'', CHR 0xE9, CHR ''s'']"

text \<open>
  Two files as Python writes them. \<open>tricky_file\<close> is the dump of the conversation with
  \<open>tricky_text\<close> as the system prompt and the digest of the scenario. \<open>stopped_file\<close>
  is what is left of the dump of the default prompt and \<open>accented_text\<close> when the
  encoding is ASCII: everything before the chunk with the accented character.
\<close>

definition tricky_file :: string where
  "tricky_file =
     ''['' @ [CHR 0x0A] @ ''    {'' @ [CHR 0x0A]
     @ ''        '' @ [CHR 0x22] @ ''role'' @ [CHR 0x22] @ '': '' @ [CHR 0x22] @ ''system'' @ [CHR 0x22] @ '','' @ [CHR 0x0A]
     @ ''        '' @ [CHR 0x22] @ ''content'' @ [CHR 0x22] @ '': '' @ [CHR 0x22]
         @ [CHR 0x5C] @ [CHR 0x22] @ [CHR 0x5C] @ [CHR 0x5C] @ [CHR 0x5C] @ ''n'' @ [CHR 0x5C] @ ''r''
         @ [CHR 0x5C] @ ''t'' @ [CHR 0x5C] @ ''b'' @ [CHR 0x5C] @ ''f'' @ [CHR 0x5C] @ ''u001fa''
         @ [CHR 0x22] @ [CHR 0x0A]
     @ ''    },'' @ [CHR 0x0A] @ ''    {'' @ [CHR 0x0A]
     @ ''        '' @ [CHR 0x22] @ ''role'' @ [CHR 0x22] @ '': '' @ [CHR 0x22] @ ''user'' @ [CHR 0x22] @ '','' @ [CHR 0x0A]
     @ ''        '' @ [CHR 0x22] @ ''content'' @ [CHR 0x22] @ '': '' @ [CHR 0x22]
         @ ''- fix bug #1'' @ [CHR 0x5C] @ ''n- add feature #2'' @ [CHR 0x22] @ [CHR 0x0A]
     @ ''    }'' @ [CHR 0x0A] @ '']''"

definition stopped_file :: string where
  "stopped_file =
     ''['' @ [CHR 0x0A] @ ''    {'' @ [CHR 0x0A]
     @ ''        '' @ [CHR 0x22] @ ''role'' @ [CHR 0x22] @ '': '' @ [CHR 0x22] @ ''system'' @ [CHR 0x22] @ '','' @ [CHR 0x0A]
     @ ''        '' @ [CHR 0x22] @ ''content'' @ [CHR 0x22] @ '': '' @ [CHR 0x22]
         @ ''Summarize the following:'' @ [CHR 0x22] @ [CHR 0x0A]
     @ ''    },'' @ [CHR 0x0A] @ ''    {'' @ [CHR 0x0A]
     @ ''        '' @ [CHR 0x22] @ ''role'' @ [CHR 0x22] @ '': '' @ [CHR 0x22] @ ''user'' @ [CHR 0x22] @ '','' @ [CHR 0x0A]
     @ ''        '' @ [CHR 0x22] @ ''content'' @ [CHR 0x22] @ '': ''"

text \<open>The gateway the constructor builds for a model type it does not know: no client.\<close>

definition clientless_gateway :: proxy_LLM where
  "clientless_gateway =
     \<lparr>p_max_retries = 5, p_timeout = 2000,
      p_prompt_file_path = ''prompts/github_openai_report_prompt.txt'',
      p_model_type = ''foo'', p_model_name = ''gpt-4o-mini'',
      p_client = None, p_proxy_url = None, p_api_key = None,
      p_default_prompt = example_prompt\<rparr>"

section \<open>Lemmas about the transport\<close>

declare send_attempts.simps [simp del]

lemma send_attempts_final:
  "\<not> retryable (status_forcelist r) (backend w (length (sent w)) req) \<Longrightarrow>
   send_attempts n left r req w =
     (case backend w (length (sent w)) req of Answer st body \<Rightarrow> (Inr (st, body), w\<lparr>sent := sent w @ [req]\<rparr>)
        | NoAnswer \<Rightarrow> (Inl ConnectionError, w\<lparr>sent := sent w @ [req]\<rparr>))"
  by (cases "backend w (length (sent w)) req"; subst send_attempts.simps)
     (simp_all add: retryable_def Let_def)

lemma send_attempts_retry:
  "retryable (status_forcelist r) (backend w (length (sent w)) req) \<Longrightarrow>
   send_attempts n (Suc left) r req w =
     send_attempts (Suc n) left r req
       (w\<lparr>sent := sent w @ [req], slept := slept w @ [backoff_delay (backoff_factor r) n]\<rparr>)"
  by (cases "backend w (length (sent w)) req"; subst send_attempts.simps)
     (simp_all add: retryable_def Let_def)

lemma send_attempts_spent:
  "retryable (status_forcelist r) (backend w (length (sent w)) req) \<Longrightarrow>
   send_attempts n 0 r req w =
     (Inl (case backend w (length (sent w)) req of NoAnswer \<Rightarrow> ConnectionError | Answer st body \<Rightarrow> RetryError),
      w\<lparr>sent := sent w @ [req]\<rparr>)"
  by (cases "backend w (length (sent w)) req"; subst send_attempts.simps)
     (simp_all add: retryable_def Let_def)

lemma send_attempts_skip:
  "\<forall>i<k. retryable (status_forcelist r) (backend w (length (sent w) + i) req) \<Longrightarrow>
   send_attempts n (k + left) r req w =
     send_attempts (n + k) left r req
       (w\<lparr>sent := sent w @ replicate k req,
          slept := slept w @ map (backoff_delay (backoff_factor r)) [n..<n + k]\<rparr>)"
proof (induction k arbitrary: w n)
  case 0
  then show ?case by simp
next
  case (Suc k)
  from Suc.prems have first: "retryable (status_forcelist r) (backend w (length (sent w)) req)"
    by (metis add.right_neutral zero_less_Suc)
  let ?w = "w\<lparr>sent := sent w @ [req], slept := slept w @ [backoff_delay (backoff_factor r) n]\<rparr>"
  have rest: "\<forall>i<k. retryable (status_forcelist r) (backend ?w (length (sent ?w) + i) req)"
    using Suc.prems by (auto dest: spec [where x = "Suc i" for i])
  have "send_attempts n (Suc k + left) r req w = send_attempts (Suc n) (k + left) r req ?w"
    using send_attempts_retry [OF first] by simp
  also have "\<dots> = send_attempts (Suc n + k) left r req
      (?w\<lparr>sent := sent ?w @ replicate k req,
           slept := slept ?w @ map (backoff_delay (backoff_factor r)) [Suc n..<Suc n + k]\<rparr>)"
    by (rule Suc.IH [OF rest])
  finally show ?case by (simp add: replicate_app_Cons_same upt_conv_Cons del: upt_Suc)
qed

lemma send_attempts_sent:
  "\<exists>m\<le>left. snd (send_attempts n left r req w) =
     w\<lparr>sent := sent w @ replicate (Suc m) req,
       slept := slept w @ map (backoff_delay (backoff_factor r)) [n..<n + m]\<rparr>"
proof (induction left arbitrary: w n)
  case 0
  have "snd (send_attempts n 0 r req w) = w\<lparr>sent := sent w @ [req]\<rparr>"
    by (cases "backend w (length (sent w)) req"; subst send_attempts.simps)
       (simp_all add: Let_def)
  then show ?case by simp
next
  case (Suc left)
  let ?w = "w\<lparr>sent := sent w @ [req], slept := slept w @ [backoff_delay (backoff_factor r) n]\<rparr>"
  from Suc.IH [of "Suc n" ?w] obtain m where m: "m \<le> left"
    "snd (send_attempts (Suc n) left r req ?w) =
       ?w\<lparr>sent := sent ?w @ replicate (Suc m) req,
           slept := slept ?w @ map (backoff_delay (backoff_factor r)) [Suc n..<Suc n + m]\<rparr>"
    by blast
  show ?case
  proof (cases "retryable (status_forcelist r) (backend w (length (sent w)) req)")
    case True
    have "snd (send_attempts n (Suc left) r req w) =
        w\<lparr>sent := sent w @ replicate (Suc (Suc m)) req,
          slept := slept w @ map (backoff_delay (backoff_factor r)) [n..<n + Suc m]\<rparr>"
      using send_attempts_retry [OF True] m(2)
      by (simp add: replicate_app_Cons_same upt_conv_Cons del: upt_Suc)
    with m(1) show ?thesis by (metis Suc_le_mono)
  next
    case False
    have "snd (send_attempts n (Suc left) r req w) =
        w\<lparr>sent := sent w @ replicate (Suc 0) req,
          slept := slept w @ map (backoff_delay (backoff_factor r)) [n..<n + 0]\<rparr>"
      using send_attempts_final [OF False] by (simp split: outcome.splits)
    then show ?thesis by blast
  qed
qed

lemma delays_of_retry_strategy [simp]:
  "map (backoff_delay (backoff_factor (retry_strategy n))) ns = ns"
  by (rule map_idI) (simp add: backoff_delay_def retry_strategy_def)

lemma LOG_fields [simp]:
  "sent (LOG lv m a w) = sent w" "backend (LOG lv m a w) = backend w"
  "sdk (LOG lv m a w) = sdk w" "sdk_calls (LOG lv m a w) = sdk_calls w"
  "files (LOG lv m a w) = files w" "writable (LOG lv m a w) = writable w"
  "slept (LOG lv m a w) = slept w" "encodable (LOG lv m a w) = encodable w"
  "logged (LOG lv m a w) = logged w @ [Log lv m a]"
  by (simp_all add: LOG_def)

lemma http_answers_LOG [simp]: "http_answers (LOG lv m a w) i st body = http_answers w i st body"
  by (simp add: http_answers_def)

lemma sdk_answers_LOG [simp]: "sdk_answers (LOG lv m a w) cs = sdk_answers w cs"
  by (simp add: sdk_answers_def)

lemma forcelist_retry_strategy:
  "st \<in> set (status_forcelist (retry_strategy n)) \<longleftrightarrow> st \<in> {429, 500, 502, 503, 504}"
  by (simp add: retry_strategy_def)

lemma retryable_answer:
  "http_answers w i st b \<Longrightarrow> st \<in> {429, 500, 502, 503, 504} \<Longrightarrow>
   retryable (status_forcelist (retry_strategy n)) (backend w (length (sent w) + i) req)"
  by (auto simp: retryable_def http_answers_def retry_strategy_def)

lemma request_after_retries:
  assumes cl: "c_retries cl = retry_strategy n"
    and k: "k \<le> n"
    and busy: "\<forall>i<k. \<exists>st b. st \<in> {429, 500, 502, 503, 504} \<and> http_answers w i st b"
    and ok: "http_answers w k 200 body"
  shows "request cl method url data w =
           (body, w\<lparr>sent := sent w @ replicate (Suc k) (prepare_request cl method url data (c_timeout cl)),
                    slept := slept w @ [1..<Suc k]\<rparr>)"
proof -
  let ?req = "prepare_request cl method url data (c_timeout cl)"
  let ?r = "retry_strategy n"
  let ?w = "w\<lparr>sent := sent w @ replicate k ?req, slept := slept w @ [1..<Suc k]\<rparr>"
  have r: "\<forall>i<k. retryable (status_forcelist ?r) (backend w (length (sent w) + i) ?req)"
    using busy retryable_answer by blast
  have last: "backend ?w (length (sent ?w)) ?req = Answer 200 body"
    using ok by (simp add: http_answers_def)
  then have nr: "\<not> retryable (status_forcelist ?r) (backend ?w (length (sent ?w)) ?req)"
    by (simp add: retryable_def retry_strategy_def)
  have "send_attempts 1 n ?r ?req w = send_attempts (1 + k) (n - k) ?r ?req ?w"
    using send_attempts_skip [OF r, of 1 "n - k"] k by simp
  also have "\<dots> = (Inr (200, body), ?w\<lparr>sent := sent ?w @ [?req]\<rparr>)"
    using send_attempts_final [OF nr, of "1 + k" "n - k"] last by simp
  finally have "send_attempts 1 n ?r ?req w =
      (Inr (200, body), w\<lparr>sent := sent w @ replicate (Suc k) ?req, slept := slept w @ [1..<Suc k]\<rparr>)"
    by (simp add: replicate_append_same)
  moreover have "total ?r = n" by (simp add: retry_strategy_def)
  ultimately show ?thesis
    using cl by (simp add: request_def session_request_def)
qed

lemma request_exhausted:
  assumes cl: "c_retries cl = retry_strategy n"
    and busy: "\<forall>i\<le>n. \<exists>st b. st \<in> {429, 500, 502, 503, 504} \<and> http_answers w i st b"
  shows "request cl method url data w =
           (JObj [], LOG ERROR ''Request failed: {}'' [ArgExn RetryError]
              (w\<lparr>sent := sent w @ replicate (Suc n) (prepare_request cl method url data (c_timeout cl)),
                 slept := slept w @ [1..<Suc n]\<rparr>))"
proof -
  let ?req = "prepare_request cl method url data (c_timeout cl)"
  let ?r = "retry_strategy n"
  let ?w = "w\<lparr>sent := sent w @ replicate n ?req, slept := slept w @ [1..<Suc n]\<rparr>"
  have r: "\<forall>i<n. retryable (status_forcelist ?r) (backend w (length (sent w) + i) ?req)"
    using busy retryable_answer by (meson less_imp_le)
  from busy obtain st b where st: "st \<in> {429, 500, 502, 503, 504}" "http_answers w n st b"
    by blast
  then have last: "backend ?w (length (sent ?w)) ?req = Answer st b"
    by (simp add: http_answers_def)
  with st(1) have rl: "retryable (status_forcelist ?r) (backend ?w (length (sent ?w)) ?req)"
    by (simp add: retryable_def retry_strategy_def)
  have "send_attempts 1 n ?r ?req w = send_attempts (1 + n) 0 ?r ?req ?w"
    using send_attempts_skip [OF r, of 1 0] by simp
  also have "\<dots> = (Inl RetryError, ?w\<lparr>sent := sent ?w @ [?req]\<rparr>)"
    using send_attempts_spent [OF rl, of "1 + n"] last by simp
  finally have "send_attempts 1 n ?r ?req w =
      (Inl RetryError, w\<lparr>sent := sent w @ replicate (Suc n) ?req, slept := slept w @ [1..<Suc n]\<rparr>)"
    by (simp add: replicate_append_same)
  moreover have "total ?r = n" by (simp add: retry_strategy_def)
  ultimately show ?thesis
    using cl by (simp add: request_def session_request_def)
qed

lemma request_net:
  "\<exists>m\<le>total (c_retries cl).
     sent (snd (request cl method url data w)) =
       sent w @ replicate (Suc m) (prepare_request cl method url data (c_timeout cl))
     \<and> slept (snd (request cl method url data w)) =
       slept w @ map (backoff_delay (backoff_factor (c_retries cl))) [1..<Suc m]"
proof -
  let ?req = "prepare_request cl method url data (c_timeout cl)"
  obtain m where m: "m \<le> total (c_retries cl)"
    "snd (send_attempts 1 (total (c_retries cl)) (c_retries cl) ?req w) =
       w\<lparr>sent := sent w @ replicate (Suc m) ?req,
         slept := slept w @ map (backoff_delay (backoff_factor (c_retries cl))) [1..<1 + m]\<rparr>"
    using send_attempts_sent by blast
  from m(2) have "sent (snd (request cl method url data w)) = sent w @ replicate (Suc m) ?req
     \<and> slept (snd (request cl method url data w)) =
       slept w @ map (backoff_delay (backoff_factor (c_retries cl))) [1..<Suc m]"
    by (cases "send_attempts 1 (total (c_retries cl)) (c_retries cl) ?req w")
       (auto simp: request_def session_request_def split: sum.splits)
  with m(1) show ?thesis by blast
qed

lemma member_Some: "member j k = Some v \<Longrightarrow> \<exists>kvs. j = JObj kvs \<and> map_of kvs k = Some v"
  by (cases j) simp_all

lemma first_item_Some: "first_item j = Some x \<Longrightarrow> \<exists>xs. j = JArr (x # xs)"
  by (cases j rule: first_item.cases) simp_all

lemma forwarded_content_run:
  assumes "forwarded_content body = Some v"
  shows "\<exists>choices choice message.
           py_get body ''choices'' JNull = Inr choices \<and> truthy choices \<and>
           py_index0 choices = Inr choice \<and> py_getitem choice ''message'' = Inr message \<and>
           py_getitem message ''content'' = Inr v \<and> py_getitem body ''choices'' = Inr choices \<and> truthy body"
proof -
  from assms obtain choices choice message where
    m: "member body ''choices'' = Some choices" "first_item choices = Some choice"
       "member choice ''message'' = Some message" "member message ''content'' = Some v"
    by (auto simp: forwarded_content_def split: option.splits)
  from m(1) obtain kvs where b: "body = JObj kvs" "map_of kvs ''choices'' = Some choices"
    using member_Some by blast
  from m(2) obtain xs where c: "choices = JArr (choice # xs)"
    using first_item_Some by blast
  from m(3) obtain ckvs where ch: "choice = JObj ckvs" "map_of ckvs ''message'' = Some message"
    using member_Some by blast
  from m(4) obtain mkvs where ms: "message = JObj mkvs" "map_of mkvs ''content'' = Some v"
    using member_Some by blast
  from b(2) have "kvs \<noteq> []" by auto
  with b c ch ms show ?thesis by simp
qed

lemma local_content_run:
  assumes "local_content body = Some v"
  shows "\<exists>message. py_get body ''message'' (JObj []) = Inr message \<and>
           py_get message ''content'' JNull = Inr v"
proof -
  from assms obtain message where
    m: "member body ''message'' = Some message" "member message ''content'' = Some v"
    by (auto simp: local_content_def split: option.splits)
  from m(1) obtain kvs where b: "body = JObj kvs" "map_of kvs ''message'' = Some message"
    using member_Some by blast
  from m(2) obtain mkvs where ms: "message = JObj mkvs" "map_of mkvs ''content'' = Some v"
    using member_Some by blast
  with b show ?thesis by simp
qed

section \<open>Lemmas about the gateways\<close>

lemma proxy_init_fields:
  assumes "proxy_LLM_init a env w0 = Inr self"
  shows "p_model_type self = a_model_type a" "p_model_name self = a_model_name a"
    "p_prompt_file_path self = a_prompt_file_path a" "p_max_retries self = a_max_retries a"
    "p_timeout self = a_timeout a" "files w0 (a_prompt_file_path a) = Some (p_default_prompt self)"
  using assms
  by (auto simp: proxy_LLM_init_def Let_def split: if_splits option.splits)

lemma proxy_init_client:
  assumes "proxy_LLM_init a env w0 = Inr self"
  shows "p_client self =
     (if a_model_type a = ''openai'' then Some OpenAI
      else if a_model_type a = ''yesapi'' then
        Some (Custom (proxy_CustomHTTPClient (getenv env ''OPENAI_API_KEY'') (Some API_URL)
                (a_max_retries a) (a_timeout a)))
      else if a_model_type a = ''ollama'' then
        Some (Custom (proxy_CustomHTTPClient None (Some OLLAMA_API_URL)
                (a_max_retries a) (a_timeout a)))
      else None)"
  using assms
  by (auto simp: proxy_LLM_init_def Let_def split: if_splits option.splits)

lemma proxy_client_retries [simp]:
  "c_retries (proxy_CustomHTTPClient k u n t) = retry_strategy n"
  "c_timeout (proxy_CustomHTTPClient k u n t) = t"
  by (simp_all add: proxy_CustomHTTPClient_def)

lemma llm_client_retries [simp]:
  "c_retries (llm_CustomHTTPClient k u n t) = retry_strategy n"
  "c_timeout (llm_CustomHTTPClient k u n t) = t"
  by (simp_all add: llm_CustomHTTPClient_def)

lemma proxy_try_yesapi_ok:
  assumes req: "request cl ''POST'' API_URL data w = (body, w')"
    and c: "forwarded_content body = Some v"
  shows "proxy_try (Custom cl) ''yesapi'' data w = (Inr (Some v), w')"
proof -
  from forwarded_content_run [OF c] obtain choices choice message where
    "py_get body ''choices'' JNull = Inr choices" "truthy choices"
    "py_index0 choices = Inr choice" "py_getitem choice ''message'' = Inr message"
    "py_getitem message ''content'' = Inr v"
    by blast
  with req show ?thesis
    by (simp add: proxy_try_def request_api_url_def)
qed

lemma proxy_try_ollama_ok:
  assumes req: "request cl ''POST'' OLLAMA_API_URL data w = (body, w')"
    and c: "local_content body = Some v"
  shows "proxy_try (Custom cl) ''ollama'' data w =
           (if truthy v then Inr (Some v) else Inl AttributeError, w')"
proof -
  from local_content_run [OF c] obtain message where
    "py_get body ''message'' (JObj []) = Inr message" "py_get message ''content'' JNull = Inr v"
    by blast
  with req show ?thesis
    by (simp add: proxy_try_def request_api_url_def response_text_def)
qed

lemma request_sent:
  assumes "c_retries cl = retry_strategy n"
  shows "\<exists>m\<le>n. sent (snd (request cl method url data w)) =
           sent w @ replicate (Suc m) (prepare_request cl method url data (c_timeout cl))
         \<and> slept (snd (request cl method url data w)) = slept w @ [1..<Suc m]"
proof -
  have "total (retry_strategy n) = n" by (simp add: retry_strategy_def)
  then show ?thesis
    using request_net [of cl "method" "url" "data" w] assms by simp
qed

lemma proxy_try_sent:
  assumes "mt \<noteq> ''openai''"
  shows "sent (snd (proxy_try (Custom cl) mt data w)) =
         sent (snd (request cl ''POST'' (request_api_url mt) data w))"
    and "slept (snd (proxy_try (Custom cl) mt data w)) =
         slept (snd (request cl ''POST'' (request_api_url mt) data w))"
  using assms
  by (cases "request cl ''POST'' (request_api_url mt) data w";
      simp add: proxy_try_def response_text_def split: sum.splits)+

lemma proxy_get_response_sent:
  assumes "mt \<noteq> ''openai''"
  shows "sent (snd (proxy_get_response (Custom cl) mt name msgs w)) =
         sent (snd (request cl ''POST'' (request_api_url mt) (proxy_data mt name msgs) w))"
    and "slept (snd (proxy_get_response (Custom cl) mt name msgs w)) =
         slept (snd (request cl ''POST'' (request_api_url mt) (proxy_data mt name msgs) w))"
  using proxy_try_sent [OF assms, of cl "proxy_data mt name msgs" w]
  by (cases "proxy_try (Custom cl) mt (proxy_data mt name msgs) w";
      simp add: proxy_get_response_def split: sum.splits option.splits)+

lemma github_report_sent:
  assumes "p_client self = Some (Custom cl)" and "p_model_type self \<noteq> ''openai''"
  shows "sent (snd (snd (generate_github_daily_report self markdown_content prompt False w))) =
         sent (snd (request cl ''POST'' (request_api_url (p_model_type self))
                 (proxy_data (p_model_type self) (p_model_name self)
                    (conversation (effective_prompt prompt (p_default_prompt self)) markdown_content))
                 (LOG INFO ''Starting report generation using {}--{} model.''
                    [ArgStr (p_model_type self), ArgStr (p_model_name self)] w)))"
    and "slept (snd (snd (generate_github_daily_report self markdown_content prompt False w))) =
         slept (snd (request cl ''POST'' (request_api_url (p_model_type self))
                 (proxy_data (p_model_type self) (p_model_name self)
                    (conversation (effective_prompt prompt (p_default_prompt self)) markdown_content))
                 (LOG INFO ''Starting report generation using {}--{} model.''
                    [ArgStr (p_model_type self), ArgStr (p_model_name self)] w)))"
proof -
  let ?w1 = "LOG INFO ''Starting report generation using {}--{} model.''
                    [ArgStr (p_model_type self), ArgStr (p_model_name self)] w"
  let ?msgs = "conversation (effective_prompt prompt (p_default_prompt self)) markdown_content"
  obtain r w2 where pg:
    "proxy_get_response (Custom cl) (p_model_type self) (p_model_name self) ?msgs ?w1 = (r, w2)"
    by (cases "proxy_get_response (Custom cl) (p_model_type self) (p_model_name self) ?msgs ?w1")
  with proxy_get_response_sent [OF assms(2), of cl "p_model_name self" ?msgs ?w1]
  have "sent w2 = sent (snd (request cl ''POST'' (request_api_url (p_model_type self))
                 (proxy_data (p_model_type self) (p_model_name self) ?msgs) ?w1))"
    and "slept w2 = slept (snd (request cl ''POST'' (request_api_url (p_model_type self))
                 (proxy_data (p_model_type self) (p_model_name self) ?msgs) ?w1))"
    by simp_all
  with pg assms(1)
  show "sent (snd (snd (generate_github_daily_report self markdown_content prompt False w))) =
         sent (snd (request cl ''POST'' (request_api_url (p_model_type self))
                 (proxy_data (p_model_type self) (p_model_name self) ?msgs) ?w1))"
    and "slept (snd (snd (generate_github_daily_report self markdown_content prompt False w))) =
         slept (snd (request cl ''POST'' (request_api_url (p_model_type self))
                 (proxy_data (p_model_type self) (p_model_name self) ?msgs) ?w1))"
    by (simp_all add: generate_github_daily_report_def Let_def)
qed

lemma proxy_get_response_http:
  assumes cl: "c_retries cl = retry_strategy n"
    and k: "k \<le> n"
    and busy: "\<forall>i<k. \<exists>st b. st \<in> {429, 500, 502, 503, 504} \<and> http_answers w i st b"
    and ok: "http_answers w k 200 body"
    and content: "content_field mt body = Some v"
    and mt: "mt = ''yesapi'' \<or> mt = ''ollama''"
  shows "fst (proxy_get_response (Custom cl) mt name msgs w) =
           (if mt = ''yesapi'' \<or> truthy v then v else JStr [])"
proof -
  let ?data = "proxy_data mt name msgs"
  let ?w = "w\<lparr>sent := sent w @ replicate (Suc k) (prepare_request cl ''POST'' (request_api_url mt) ?data (c_timeout cl)),
                 slept := slept w @ [1..<Suc k]\<rparr>"
  have req: "request cl ''POST'' (request_api_url mt) ?data w = (body, ?w)"
    by (rule request_after_retries [OF cl k busy ok])
  from mt show ?thesis
  proof
    assume y: "mt = ''yesapi''"
    with content have "forwarded_content body = Some v" by (simp add: content_field_def)
    with req y have "proxy_try (Custom cl) ''yesapi'' ?data w = (Inr (Some v), ?w)"
      using proxy_try_yesapi_ok [of cl ?data w body ?w v] by (simp add: request_api_url_def)
    with y show ?thesis by (simp add: proxy_get_response_def)
  next
    assume o: "mt = ''ollama''"
    with content have "local_content body = Some v" by (simp add: content_field_def)
    with req o have "proxy_try (Custom cl) ''ollama'' ?data w =
        (if truthy v then Inr (Some v) else Inl AttributeError, ?w)"
      using proxy_try_ollama_ok [of cl ?data w body ?w v] by (simp add: request_api_url_def)
    with o show ?thesis by (simp add: proxy_get_response_def)
  qed
qed

lemma github_report_http:
  assumes client: "p_client self = Some (Custom cl)" "c_retries cl = retry_strategy n"
    and k: "k \<le> n"
    and busy: "\<forall>i<k. \<exists>st b. st \<in> {429, 500, 502, 503, 504} \<and> http_answers w i st b"
    and ok: "http_answers w k 200 body"
    and content: "content_field (p_model_type self) body = Some v"
    and mt: "p_model_type self = ''yesapi'' \<or> p_model_type self = ''ollama''"
  shows "fst (generate_github_daily_report self markdown_content prompt False w) =
           Inr (if truthy v then v else JStr [])"
proof -
  let ?w1 = "LOG INFO ''Starting report generation using {}--{} model.''
                    [ArgStr (p_model_type self), ArgStr (p_model_name self)] w"
  let ?msgs = "conversation (effective_prompt prompt (p_default_prompt self)) markdown_content"
  have busy1: "\<forall>i<k. \<exists>st b. st \<in> {429, 500, 502, 503, 504} \<and> http_answers ?w1 i st b"
    using busy by simp
  have ok1: "http_answers ?w1 k 200 body" using ok by simp
  have "fst (proxy_get_response (Custom cl) (p_model_type self) (p_model_name self) ?msgs ?w1) =
           (if p_model_type self = ''yesapi'' \<or> truthy v then v else JStr [])"
    by (rule proxy_get_response_http [OF client(2) k busy1 ok1 content mt])
  with client(1) show ?thesis
    by (cases "proxy_get_response (Custom cl) (p_model_type self) (p_model_name self) ?msgs ?w1")
       (auto simp: generate_github_daily_report_def Let_def)
qed

lemma completions_create_ok:
  assumes "sdk_answers w (c # rest)"
  shows "fst (completions_create template data w) = Inr (case c of None \<Rightarrow> JNull | Some s \<Rightarrow> JStr s)"
  using assms by (simp add: completions_create_def sdk_answers_def Let_def)

lemma github_report_sdk:
  assumes "p_client self = Some OpenAI" "p_model_type self = ''openai''"
    and "sdk_answers w (Some c # rest)"
  shows "fst (generate_github_daily_report self markdown_content prompt False w) = Inr (JStr c)"
proof -
  let ?w1 = "LOG INFO ''Starting report generation using {}--{} model.''
                    [ArgStr (p_model_type self), ArgStr (p_model_name self)] w"
  let ?data = "proxy_data ''openai'' (p_model_name self)
       (conversation (effective_prompt prompt (p_default_prompt self)) markdown_content)"
  have "sdk_answers ?w1 (Some c # rest)" using assms(3) by simp
  then have "fst (completions_create ''GPT response: %s'' ?data ?w1) = Inr (JStr c)"
    using completions_create_ok by fastforce
  then show ?thesis
    using assms(1,2)
    by (cases "completions_create ''GPT response: %s'' ?data ?w1")
       (auto simp: generate_github_daily_report_def proxy_get_response_def proxy_try_def Let_def)
qed

lemma llm_try_ok:
  assumes req: "request cl ''POST'' API_URL data w = (body, w')"
    and c: "forwarded_content body = Some v"
  shows "llm_try (Custom cl) data w = (Inr (Some v), w')"
proof -
  from forwarded_content_run [OF c] obtain choices choice message where
    "py_get body ''choices'' JNull = Inr choices" "truthy choices"
    "py_index0 choices = Inr choice" "py_getitem choice ''message'' = Inr message"
    "py_getitem message ''content'' = Inr v" "py_getitem body ''choices'' = Inr choices"
    "truthy body"
    by blast
  with req show ?thesis
    by (simp add: llm_try_def)
qed

lemma daily_report_http:
  assumes client: "client self = Custom cl" "c_retries cl = retry_strategy n"
    and k: "k \<le> n"
    and busy: "\<forall>i<k. \<exists>st b. st \<in> {429, 500, 502, 503, 504} \<and> http_answers w i st b"
    and ok: "http_answers w k 200 body"
    and content: "forwarded_content body = Some v"
  shows "fst (generate_daily_report self markdown_content prompt False w) =
           Inr (if truthy v then v else JStr [])"
proof -
  let ?w1 = "LOG INFO ''Starting report generation using GPT model.'' [] w"
  let ?data = "llm_data (conversation (effective_prompt prompt (default_prompt self)) markdown_content)"
  let ?w2 = "?w1\<lparr>sent := sent ?w1 @ replicate (Suc k) (prepare_request cl ''POST'' API_URL ?data (c_timeout cl)),
                   slept := slept ?w1 @ [1..<Suc k]\<rparr>"
  have busy1: "\<forall>i<k. \<exists>st b. st \<in> {429, 500, 502, 503, 504} \<and> http_answers ?w1 i st b"
    using busy by simp
  have ok1: "http_answers ?w1 k 200 body" using ok by simp
  have "request cl ''POST'' API_URL ?data ?w1 = (body, ?w2)"
    by (rule request_after_retries [OF client(2) k busy1 ok1])
  then have "llm_try (Custom cl) ?data ?w1 = (Inr (Some v), ?w2)"
    using content by (rule llm_try_ok)
  with client(1) show ?thesis
    by (simp add: generate_daily_report_def llm_get_response_def Let_def)
qed

lemma daily_report_sdk:
  assumes "client self = OpenAI" and "sdk_answers w (Some c # rest)"
  shows "fst (generate_daily_report self markdown_content prompt False w) = Inr (JStr c)"
proof -
  let ?w1 = "LOG INFO ''Starting report generation using GPT model.'' [] w"
  let ?data = "llm_data (conversation (effective_prompt prompt (default_prompt self)) markdown_content)"
  have "sdk_answers ?w1 (Some c # rest)" using assms(2) by simp
  then have "fst (completions_create ''GPT response: {}'' ?data ?w1) = Inr (JStr c)"
    using completions_create_ok by fastforce
  then show ?thesis
    using assms(1)
    by (cases "completions_create ''GPT response: {}'' ?data ?w1")
       (auto simp: generate_daily_report_def llm_get_response_def llm_try_def Let_def)
qed

lemma llm_init_client:
  assumes "LLM_init n t env w0 = Inr self"
  shows "client self =
     (if nonempty (getenv env ''OPENAI_PROXY_URL'')
      then Custom (llm_CustomHTTPClient (getenv env ''OPENAI_API_KEY'') (getenv env ''OPENAI_PROXY_URL'') n t)
      else OpenAI)"
  using assms
  by (auto simp: LLM_init_def Let_def split: if_splits option.splits)

lemma init_yesapi:
  "proxy_LLM_init (args_for ''yesapi'') with_key (scripted (\<lambda>n. NoAnswer) []) = Inr yesapi_gateway"
  by (simp add: proxy_LLM_init_def args_for_def proxy_defaults_def with_key_def scripted_def
        example_files_def yesapi_gateway_def DEFAULT_MAX_RETRIES_def proxy_DEFAULT_TIMEOUT_def Let_def)

lemma init_keyless:
  "proxy_LLM_init (args_for ''yesapi'') without_key (scripted (\<lambda>n. NoAnswer) []) = Inr keyless_gateway"
  by (simp add: proxy_LLM_init_def args_for_def proxy_defaults_def without_key_def scripted_def
        example_files_def keyless_gateway_def DEFAULT_MAX_RETRIES_def proxy_DEFAULT_TIMEOUT_def Let_def)

lemma init_ollama:
  "proxy_LLM_init (args_for ''ollama'') with_key (scripted (\<lambda>n. NoAnswer) []) = Inr ollama_gateway"
  by (simp add: proxy_LLM_init_def args_for_def proxy_defaults_def with_key_def scripted_def
        example_files_def ollama_gateway_def DEFAULT_MAX_RETRIES_def proxy_DEFAULT_TIMEOUT_def Let_def)

lemma init_openai:
  "proxy_LLM_init (args_for ''openai'') with_key (scripted (\<lambda>n. NoAnswer) []) = Inr openai_gateway"
  by (simp add: proxy_LLM_init_def args_for_def proxy_defaults_def with_key_def scripted_def
        example_files_def openai_gateway_def DEFAULT_MAX_RETRIES_def proxy_DEFAULT_TIMEOUT_def Let_def)

lemma init_llm_proxy:
  "LLM_init 5 30 with_proxy (scripted (\<lambda>n. NoAnswer) []) = Inr llm_proxy_gateway"
  by (simp add: LLM_init_def with_proxy_def scripted_def example_files_def llm_prompt_path_def
        llm_proxy_gateway_def Let_def)

lemma init_llm_sdk:
  "LLM_init 5 30 with_key (scripted (\<lambda>n. NoAnswer) []) = Inr llm_sdk_gateway"
  by (simp add: LLM_init_def with_key_def scripted_def example_files_def llm_prompt_path_def
        llm_sdk_gateway_def Let_def)

lemma scripted_answers:
  "http_answers (scripted script cs) i st body \<longleftrightarrow> script i = Answer st body"
  "sdk_answers (scripted script cs) cs' \<longleftrightarrow> cs = cs'"
  by (simp_all add: http_answers_def sdk_answers_def scripted_def)

lemma example_contents:
  "content_field ''yesapi'' (forwarded_body c) = Some (JStr c)"
  "content_field ''ollama'' (local_body c) = Some (JStr c)"
  "forwarded_content (forwarded_body c) = Some (JStr c)"
  "local_content (local_body c) = Some (JStr c)"
  by (simp_all add: content_field_def forwarded_content_def local_content_def
        forwarded_body_def local_body_def)

lemma args_for_type [simp]: "a_model_type (args_for mt) = mt"
  by (simp add: args_for_def)

lemma with_env [simp]:
  "getenv with_proxy ''OPENAI_PROXY_URL'' = Some ''http://127.0.0.1:7890''"
  "getenv with_key ''OPENAI_PROXY_URL'' = None"
  "getenv with_key ''OPENAI_API_KEY'' = Some ''sk-test''"
  "getenv without_key ''OPENAI_API_KEY'' = None"
  by (simp_all add: with_proxy_def with_key_def without_key_def)

lemma proxy_init_http_client:
  assumes "proxy_LLM_init a env w0 = Inr self"
    and "a_model_type a = ''yesapi'' \<or> a_model_type a = ''ollama''"
  shows "p_client self = Some (Custom (proxy_CustomHTTPClient
           (if a_model_type a = ''yesapi'' then getenv env ''OPENAI_API_KEY'' else None)
           (Some (request_api_url (a_model_type a))) (a_max_retries a) (a_timeout a)))"
  using assms(2) proxy_init_client [OF assms(1)]
  by (auto simp: request_api_url_def)

lemma github_report_net:
  assumes "p_client self = Some (Custom cl)" and "p_model_type self \<noteq> ''openai''"
  shows "\<exists>m\<le>total (c_retries cl).
           sent (snd (snd (generate_github_daily_report self markdown_content prompt False w))) =
             sent w @ replicate (Suc m)
               (prepare_request cl ''POST'' (request_api_url (p_model_type self))
                  (proxy_data (p_model_type self) (p_model_name self)
                     (conversation (effective_prompt prompt (p_default_prompt self)) markdown_content))
                  (c_timeout cl))
           \<and> slept (snd (snd (generate_github_daily_report self markdown_content prompt False w))) =
             slept w @ map (backoff_delay (backoff_factor (c_retries cl))) [1..<Suc m]"
  using request_net [of cl "''POST''" "request_api_url (p_model_type self)"
      "proxy_data (p_model_type self) (p_model_name self)
         (conversation (effective_prompt prompt (p_default_prompt self)) markdown_content)"
      "LOG INFO ''Starting report generation using {}--{} model.''
         [ArgStr (p_model_type self), ArgStr (p_model_name self)] w"]
  by (simp add: github_report_sent [OF assms])

lemma github_report_requests:
  assumes "p_client self = Some (Custom cl)" and "p_model_type self \<noteq> ''openai''"
    and "c_retries cl = retry_strategy n"
  shows "\<exists>m\<le>n. sent (snd (snd (generate_github_daily_report self markdown_content prompt False w))) =
           sent w @ replicate (Suc m)
             (prepare_request cl ''POST'' (request_api_url (p_model_type self))
                (proxy_data (p_model_type self) (p_model_name self)
                   (conversation (effective_prompt prompt (p_default_prompt self)) markdown_content))
                (c_timeout cl))
         \<and> slept (snd (snd (generate_github_daily_report self markdown_content prompt False w))) =
           slept w @ [1..<Suc m]"
proof -
  have "total (retry_strategy n) = n" by (simp add: retry_strategy_def)
  then show ?thesis
    using github_report_net [OF assms(1,2), of markdown_content prompt w] assms(3) by simp
qed

lemma github_report_http_sent:
  assumes client: "p_client self = Some (Custom cl)" "c_retries cl = retry_strategy n"
    and k: "k \<le> n"
    and busy: "\<forall>i<k. \<exists>st b. st \<in> {429, 500, 502, 503, 504} \<and> http_answers w i st b"
    and ok: "http_answers w k 200 body"
    and mt: "p_model_type self \<noteq> ''openai''"
  shows "sent (snd (snd (generate_github_daily_report self markdown_content prompt False w))) =
           sent w @ replicate (Suc k)
             (prepare_request cl ''POST'' (request_api_url (p_model_type self))
                (proxy_data (p_model_type self) (p_model_name self)
                   (conversation (effective_prompt prompt (p_default_prompt self)) markdown_content))
                (c_timeout cl))"
proof -
  let ?w1 = "LOG INFO ''Starting report generation using {}--{} model.''
                    [ArgStr (p_model_type self), ArgStr (p_model_name self)] w"
  have busy1: "\<forall>i<k. \<exists>st b. st \<in> {429, 500, 502, 503, 504} \<and> http_answers ?w1 i st b"
    using busy by simp
  have ok1: "http_answers ?w1 k 200 body" using ok by simp
  show ?thesis
    by (simp add: github_report_sent [OF client(1) mt]
          request_after_retries [OF client(2) k busy1 ok1])
qed

lemma proxy_get_response_empty_dict:
  assumes "request cl ''POST'' (request_api_url mt) (proxy_data mt name msgs) w = (JObj [], w')"
    and "mt \<noteq> ''openai''"
  shows "fst (proxy_get_response (Custom cl) mt name msgs w) = JStr []"
  using assms
  by (simp add: proxy_get_response_def proxy_try_def response_text_def)

lemma github_report_exhausted:
  assumes client: "p_client self = Some (Custom cl)" "c_retries cl = retry_strategy n"
    and busy: "\<forall>i\<le>n. \<exists>st b. st \<in> {429, 500, 502, 503, 504} \<and> http_answers w i st b"
    and mt: "p_model_type self \<noteq> ''openai''"
  shows "fst (generate_github_daily_report self markdown_content prompt False w) = Inr (JStr [])"
    and "sent (snd (snd (generate_github_daily_report self markdown_content prompt False w))) =
           sent w @ replicate (Suc n)
             (prepare_request cl ''POST'' (request_api_url (p_model_type self))
                (proxy_data (p_model_type self) (p_model_name self)
                   (conversation (effective_prompt prompt (p_default_prompt self)) markdown_content))
                (c_timeout cl))"
    and "slept (snd (snd (generate_github_daily_report self markdown_content prompt False w))) =
           slept w @ [1..<Suc n]"
proof -
  let ?w1 = "LOG INFO ''Starting report generation using {}--{} model.''
                    [ArgStr (p_model_type self), ArgStr (p_model_name self)] w"
  let ?msgs = "conversation (effective_prompt prompt (p_default_prompt self)) markdown_content"
  let ?data = "proxy_data (p_model_type self) (p_model_name self) ?msgs"
  have busy1: "\<forall>i\<le>n. \<exists>st b. st \<in> {429, 500, 502, 503, 504} \<and> http_answers ?w1 i st b"
    using busy by simp
  note req = request_exhausted [OF client(2) busy1, of "''POST''" "request_api_url (p_model_type self)" ?data]
  have "fst (proxy_get_response (Custom cl) (p_model_type self) (p_model_name self) ?msgs ?w1) = JStr []"
    by (rule proxy_get_response_empty_dict [OF req mt])
  with client(1) show "fst (generate_github_daily_report self markdown_content prompt False w) = Inr (JStr [])"
    by (cases "proxy_get_response (Custom cl) (p_model_type self) (p_model_name self) ?msgs ?w1")
       (auto simp: generate_github_daily_report_def Let_def)
  show "sent (snd (snd (generate_github_daily_report self markdown_content prompt False w))) =
           sent w @ replicate (Suc n)
             (prepare_request cl ''POST'' (request_api_url (p_model_type self)) ?data (c_timeout cl))"
    by (simp add: github_report_sent [OF client(1) mt] req)
  show "slept (snd (snd (generate_github_daily_report self markdown_content prompt False w))) =
           slept w @ [1..<Suc n]"
    by (simp add: github_report_sent [OF client(1) mt] req)
qed

lemma proxy_try_ollama_no_content:
  assumes req: "request cl ''POST'' OLLAMA_API_URL data w = (JObj kvs, w')"
    and missing: "local_content (JObj kvs) = None"
  shows "proxy_try (Custom cl) ''ollama'' data w = (Inl AttributeError, w')"
proof (cases "map_of kvs ''message''")
  case None
  with req show ?thesis
    by (simp add: proxy_try_def request_api_url_def response_text_def)
next
  case (Some m)
  with missing have mc: "member m ''content'' = None"
    by (simp add: local_content_def)
  show ?thesis
  proof (cases m)
    case (JObj mk)
    with mc Some req show ?thesis
      by (simp add: proxy_try_def request_api_url_def response_text_def)
  qed (use Some req in \<open>simp_all add: proxy_try_def request_api_url_def\<close>)
qed

lemma github_report_answered:
  assumes client: "p_client self = Some (Custom cl)" "c_retries cl = retry_strategy n"
    and ok: "http_answers w 0 200 body"
  shows "request cl ''POST'' (request_api_url (p_model_type self))
           (proxy_data (p_model_type self) (p_model_name self) msgs)
           (LOG INFO ''Starting report generation using {}--{} model.''
              [ArgStr (p_model_type self), ArgStr (p_model_name self)] w)
         = (body,
            (LOG INFO ''Starting report generation using {}--{} model.''
              [ArgStr (p_model_type self), ArgStr (p_model_name self)] w)
            \<lparr>sent := sent w @ [prepare_request cl ''POST'' (request_api_url (p_model_type self))
                (proxy_data (p_model_type self) (p_model_name self) msgs) (c_timeout cl)]\<rparr>)"
proof -
  let ?w1 = "LOG INFO ''Starting report generation using {}--{} model.''
              [ArgStr (p_model_type self), ArgStr (p_model_name self)] w"
  have ok1: "http_answers ?w1 0 200 body" using ok by simp
  show ?thesis
    using request_after_retries [OF client(2) _ _ ok1, of "''POST''"
        "request_api_url (p_model_type self)" "proxy_data (p_model_type self) (p_model_name self) msgs"]
    by simp
qed

section \<open>Lemmas about the gateway of \<^verbatim>\<open>llm.py\<close> and the vendor SDK\<close>

lemma llm_try_sent:
  "sent (snd (llm_try (Custom cl) data w)) = sent (snd (request cl ''POST'' API_URL data w))"
  "slept (snd (llm_try (Custom cl) data w)) = slept (snd (request cl ''POST'' API_URL data w))"
  by (cases "request cl ''POST'' API_URL data w";
      simp add: llm_try_def split: sum.splits)+

lemma llm_get_response_sent:
  "sent (snd (llm_get_response (Custom cl) msgs w)) =
   sent (snd (request cl ''POST'' API_URL (llm_data msgs) w))"
  "slept (snd (llm_get_response (Custom cl) msgs w)) =
   slept (snd (request cl ''POST'' API_URL (llm_data msgs) w))"
  using llm_try_sent [of cl "llm_data msgs" w]
  by (cases "llm_try (Custom cl) (llm_data msgs) w";
      simp add: llm_get_response_def split: sum.splits option.splits)+

lemma daily_report_sent:
  assumes "client self = Custom cl"
  shows "sent (snd (snd (generate_daily_report self markdown_content prompt False w))) =
         sent (snd (request cl ''POST'' API_URL
                 (llm_data (conversation (effective_prompt prompt (default_prompt self)) markdown_content))
                 (LOG INFO ''Starting report generation using GPT model.'' [] w)))"
    and "slept (snd (snd (generate_daily_report self markdown_content prompt False w))) =
         slept (snd (request cl ''POST'' API_URL
                 (llm_data (conversation (effective_prompt prompt (default_prompt self)) markdown_content))
                 (LOG INFO ''Starting report generation using GPT model.'' [] w)))"
proof -
  let ?w1 = "LOG INFO ''Starting report generation using GPT model.'' [] w"
  let ?msgs = "conversation (effective_prompt prompt (default_prompt self)) markdown_content"
  obtain r w2 where pg: "llm_get_response (Custom cl) ?msgs ?w1 = (r, w2)"
    by (cases "llm_get_response (Custom cl) ?msgs ?w1")
  with llm_get_response_sent [of cl ?msgs ?w1]
  have "sent w2 = sent (snd (request cl ''POST'' API_URL (llm_data ?msgs) ?w1))"
    and "slept w2 = slept (snd (request cl ''POST'' API_URL (llm_data ?msgs) ?w1))"
    by simp_all
  with pg assms
  show "sent (snd (snd (generate_daily_report self markdown_content prompt False w))) =
         sent (snd (request cl ''POST'' API_URL (llm_data ?msgs) ?w1))"
    and "slept (snd (snd (generate_daily_report self markdown_content prompt False w))) =
         slept (snd (request cl ''POST'' API_URL (llm_data ?msgs) ?w1))"
    by (simp_all add: generate_daily_report_def Let_def)
qed

lemma daily_report_net:
  assumes "client self = Custom cl"
  shows "\<exists>m\<le>total (c_retries cl).
           sent (snd (snd (generate_daily_report self markdown_content prompt False w))) =
             sent w @ replicate (Suc m)
               (prepare_request cl ''POST'' API_URL
                  (llm_data (conversation (effective_prompt prompt (default_prompt self)) markdown_content))
                  (c_timeout cl))
           \<and> slept (snd (snd (generate_daily_report self markdown_content prompt False w))) =
             slept w @ map (backoff_delay (backoff_factor (c_retries cl))) [1..<Suc m]"
  using request_net [of cl "''POST''" API_URL
      "llm_data (conversation (effective_prompt prompt (default_prompt self)) markdown_content)"
      "LOG INFO ''Starting report generation using GPT model.'' [] w"]
  by (simp add: daily_report_sent [OF assms])

lemma daily_report_requests:
  assumes "client self = Custom cl" and "c_retries cl = retry_strategy n"
  shows "\<exists>m\<le>n. sent (snd (snd (generate_daily_report self markdown_content prompt False w))) =
           sent w @ replicate (Suc m)
             (prepare_request cl ''POST'' API_URL
                (llm_data (conversation (effective_prompt prompt (default_prompt self)) markdown_content))
                (c_timeout cl))
         \<and> slept (snd (snd (generate_daily_report self markdown_content prompt False w))) =
           slept w @ [1..<Suc m]"
proof -
  have "total (retry_strategy n) = n" by (simp add: retry_strategy_def)
  then show ?thesis
    using daily_report_net [OF assms(1), of markdown_content prompt w] assms(2) by simp
qed

lemma daily_report_exhausted:
  assumes client: "client self = Custom cl" "c_retries cl = retry_strategy n"
    and busy: "\<forall>i\<le>n. \<exists>st b. st \<in> {429, 500, 502, 503, 504} \<and> http_answers w i st b"
  shows "fst (generate_daily_report self markdown_content prompt False w) = Inr (JStr [])"
    and "sent (snd (snd (generate_daily_report self markdown_content prompt False w))) =
           sent w @ replicate (Suc n)
             (prepare_request cl ''POST'' API_URL
                (llm_data (conversation (effective_prompt prompt (default_prompt self)) markdown_content))
                (c_timeout cl))"
    and "slept (snd (snd (generate_daily_report self markdown_content prompt False w))) =
           slept w @ [1..<Suc n]"
proof -
  let ?w1 = "LOG INFO ''Starting report generation using GPT model.'' [] w"
  let ?msgs = "conversation (effective_prompt prompt (default_prompt self)) markdown_content"
  have busy1: "\<forall>i\<le>n. \<exists>st b. st \<in> {429, 500, 502, 503, 504} \<and> http_answers ?w1 i st b"
    using busy by simp
  note req = request_exhausted [OF client(2) busy1, of "''POST''" API_URL "llm_data ?msgs"]
  then have "fst (llm_get_response (Custom cl) ?msgs ?w1) = JStr []"
    by (simp add: llm_get_response_def llm_try_def)
  with client(1) show "fst (generate_daily_report self markdown_content prompt False w) = Inr (JStr [])"
    by (cases "llm_get_response (Custom cl) ?msgs ?w1")
       (auto simp: generate_daily_report_def Let_def)
  show "sent (snd (snd (generate_daily_report self markdown_content prompt False w))) =
           sent w @ replicate (Suc n) (prepare_request cl ''POST'' API_URL (llm_data ?msgs) (c_timeout cl))"
    by (simp add: daily_report_sent [OF client(1)] req)
  show "slept (snd (snd (generate_daily_report self markdown_content prompt False w))) =
           slept w @ [1..<Suc n]"
    by (simp add: daily_report_sent [OF client(1)] req)
qed

lemma completions_create_calls:
  "sdk_calls (snd (completions_create template data w)) = sdk_calls w @ [data]"
  by (simp add: completions_create_def Let_def split: sdk_outcome.splits list.splits)

lemma github_report_sdk_calls:
  assumes "p_client self = Some OpenAI" and "p_model_type self = ''openai''"
  shows "sdk_calls (snd (snd (generate_github_daily_report self markdown_content prompt False w))) =
         sdk_calls w @ [proxy_data ''openai'' (p_model_name self)
            (conversation (effective_prompt prompt (p_default_prompt self)) markdown_content)]"
proof -
  let ?w1 = "LOG INFO ''Starting report generation using {}--{} model.''
                    [ArgStr (p_model_type self), ArgStr (p_model_name self)] w"
  let ?data = "proxy_data ''openai'' (p_model_name self)
       (conversation (effective_prompt prompt (p_default_prompt self)) markdown_content)"
  obtain r w2 where cc: "completions_create ''GPT response: %s'' ?data ?w1 = (r, w2)"
    by (cases "completions_create ''GPT response: %s'' ?data ?w1")
  with completions_create_calls [of "''GPT response: %s''" ?data ?w1]
  have "sdk_calls w2 = sdk_calls w @ [?data]" by simp
  with cc assms show ?thesis
    by (cases r)
       (simp_all add: generate_github_daily_report_def proxy_get_response_def proxy_try_def Let_def)
qed

lemma daily_report_sdk_calls:
  assumes "client self = OpenAI"
  shows "sdk_calls (snd (snd (generate_daily_report self markdown_content prompt False w))) =
         sdk_calls w @ [llm_data
            (conversation (effective_prompt prompt (default_prompt self)) markdown_content)]"
proof -
  let ?w1 = "LOG INFO ''Starting report generation using GPT model.'' [] w"
  let ?data = "llm_data (conversation (effective_prompt prompt (default_prompt self)) markdown_content)"
  obtain r w2 where cc: "completions_create ''GPT response: {}'' ?data ?w1 = (r, w2)"
    by (cases "completions_create ''GPT response: {}'' ?data ?w1")
  with completions_create_calls [of "''GPT response: {}''" ?data ?w1]
  have "sdk_calls w2 = sdk_calls w @ [?data]" by simp
  with cc assms show ?thesis
    by (cases r)
       (simp_all add: generate_daily_report_def llm_get_response_def llm_try_def Let_def)
qed

section \<open>Lemmas about the dry-run file\<close>

lemma replicate_spaces:
  "replicate 4 x = [x, x, x, x]" "replicate 8 x = [x, x, x, x, x, x, x, x]"
  by (simp_all add: numeral_eq_Suc)

lemma encode_plain_words:
  "encode_basestring ''role'' = [CHR 0x22] @ ''role'' @ [CHR 0x22]"
  "encode_basestring ''content'' = [CHR 0x22] @ ''content'' @ [CHR 0x22]"
  "encode_basestring ''system'' = [CHR 0x22] @ ''system'' @ [CHR 0x22]"
  "encode_basestring ''user'' = [CHR 0x22] @ ''user'' @ [CHR 0x22]"
  by (simp_all add: encode_basestring_def escape_char_def)

lemma conversation_dump: "concat (iterencode 0 (conversation s d)) = conversation_text s d"
  by (simp add: conversation_def conversation_text_def newline_indent_def
        replicate_spaces encode_plain_words)

lemma write_chunks_eq:
  "write_chunks enc chunks written =
     (if list_all (list_all enc) chunks then (True, written @ concat chunks)
      else (False, written @ concat (takeWhile (list_all enc) chunks)))"
  by (induction chunks arbitrary: written) simp_all

lemma list_all_concat: "list_all (list_all P) xss \<longleftrightarrow> list_all P (concat xss)"
  by (induction xss) simp_all

lemma stopped_short:
  assumes "\<not> list_all (list_all P) xss"
  shows "\<exists>rest. rest \<noteq> [] \<and> concat xss = concat (takeWhile (list_all P) xss) @ rest"
proof -
  have "dropWhile (list_all P) xss \<noteq> []"
    using assms by (simp add: list_all_iff)
  then obtain x xs where d: "dropWhile (list_all P) xss = x # xs"
    by (cases "dropWhile (list_all P) xss") auto
  then have "\<not> list_all P x"
    by (metis hd_dropWhile list.sel(1) list.distinct(1))
  then have "x \<noteq> []" by auto
  then have "concat (dropWhile (list_all P) xss) \<noteq> []" using d by simp
  moreover have "concat xss = concat (takeWhile (list_all P) xss) @ concat (dropWhile (list_all P) xss)"
    by (metis concat_append takeWhile_dropWhile_id)
  ultimately show ?thesis by blast
qed

lemma dump_to_file_cases:
  "dump_to_file path (conversation s d) w =
     (if \<not> writable w path then (Some OSError, w)
      else if list_all (encodable w) (conversation_text s d)
        then (None, w\<lparr>files := (files w)(path \<mapsto> conversation_text s d)\<rparr>)
      else (Some UnicodeEncodeError,
            w\<lparr>files := (files w)(path \<mapsto>
                 concat (takeWhile (list_all (encodable w)) (iterencode 0 (conversation s d))))\<rparr>))"
  using conversation_dump [of s d]
  by (simp add: dump_to_file_def write_chunks_eq list_all_concat)

lemma cut_short:
  assumes "\<not> list_all enc (conversation_text s d)"
  shows "\<exists>rest. rest \<noteq> [] \<and>
           conversation_text s d =
             concat (takeWhile (list_all enc) (iterencode 0 (conversation s d))) @ rest"
proof -
  have "\<not> list_all (list_all enc) (iterencode 0 (conversation s d))"
    using assms conversation_dump [of s d] by (simp add: list_all_concat)
  from stopped_short [OF this] show ?thesis
    using conversation_dump [of s d] by simp
qed

lemma github_dry_run:
  "generate_github_daily_report self markdown_content prompt True w =
     (if \<not> writable w (p_prompt_file_path self)
      then (Inl OSError, self, LOG INFO ''Dry run mode enabled. Saving prompt to file.'' [] w)
      else if list_all (encodable w)
                (conversation_text (effective_prompt prompt (p_default_prompt self)) markdown_content)
      then (Inr (JStr ''DRY RUN''), self,
            LOG DEBUG ''Prompt saved to {}'' [ArgStr (p_prompt_file_path self)]
              ((LOG INFO ''Dry run mode enabled. Saving prompt to file.'' [] w)
               \<lparr>files := (files w)(p_prompt_file_path self \<mapsto>
                    conversation_text (effective_prompt prompt (p_default_prompt self)) markdown_content)\<rparr>))
      else (Inl UnicodeEncodeError, self,
            (LOG INFO ''Dry run mode enabled. Saving prompt to file.'' [] w)
            \<lparr>files := (files w)(p_prompt_file_path self \<mapsto>
                 concat (takeWhile (list_all (encodable w))
                   (iterencode 0 (conversation (effective_prompt prompt (p_default_prompt self))
                      markdown_content))))\<rparr>))"
  by (simp add: generate_github_daily_report_def dump_to_file_cases Let_def)

lemma daily_dry_run:
  "generate_daily_report self markdown_content prompt True w =
     (if \<not> writable w ''daily_progress/prompt.txt''
      then (Inl OSError, self, LOG INFO ''Dry run mode enabled. Saving prompt to file.'' [] w)
      else if list_all (encodable w)
                (conversation_text (effective_prompt prompt (default_prompt self)) markdown_content)
      then (Inr (JStr ''DRY RUN''), self,
            LOG DEBUG ''Prompt saved to daily_progress/prompt.txt'' []
              ((LOG INFO ''Dry run mode enabled. Saving prompt to file.'' [] w)
               \<lparr>files := (files w)(''daily_progress/prompt.txt'' \<mapsto>
                    conversation_text (effective_prompt prompt (default_prompt self)) markdown_content)\<rparr>))
      else (Inl UnicodeEncodeError, self,
            (LOG INFO ''Dry run mode enabled. Saving prompt to file.'' [] w)
            \<lparr>files := (files w)(''daily_progress/prompt.txt'' \<mapsto>
                 concat (takeWhile (list_all (encodable w))
                   (iterencode 0 (conversation (effective_prompt prompt (default_prompt self))
                      markdown_content))))\<rparr>))"
  by (simp add: generate_daily_report_def dump_to_file_cases dry_run_path_def Let_def)

lemma hn_is_github:
  "generate_hn_daily_report self markdown_content prompt dry_run w =
   generate_github_daily_report self markdown_content prompt dry_run w"
  by (simp add: generate_hn_daily_report_def generate_github_daily_report_def)

lemma example_file_texts:
  "conversation_text tricky_text example_digest = tricky_file"
  "concat (takeWhile (list_all (\<lambda>c. (of_char c :: nat) < 128))
     (iterencode 0 (conversation example_prompt accented_text))) = stopped_file"
  by (simp_all add: conversation_text_def conversation_def tricky_file_def stopped_file_def
        tricky_text_def example_digest_def example_prompt_def accented_text_def
        encode_basestring_def escape_char_def hexdigit_def newline_indent_def replicate_spaces)

lemma messages_of_data [simp]:
  "member (proxy_data mt name msgs) ''messages'' = Some msgs"
  "member (llm_data msgs) ''messages'' = Some msgs"
  by (simp_all add: proxy_data_def llm_data_def)

lemma rq_json_prepare [simp]: "rq_json (prepare_request cl m u d t) = d"
  by (simp add: prepare_request_def)

lemma github_report_nothing_sent:
  assumes "p_client self = None
           \<or> (\<exists>cl. p_client self = Some (Custom cl)) \<and> p_model_type self = ''openai''
           \<or> p_client self = Some OpenAI \<and> p_model_type self \<noteq> ''openai''"
  shows "sent (snd (snd (generate_github_daily_report self markdown_content prompt False w))) = sent w"
    and "sdk_calls (snd (snd (generate_github_daily_report self markdown_content prompt False w))) = sdk_calls w"
  using assms
  by (auto simp: generate_github_daily_report_def proxy_get_response_def proxy_try_def Let_def)

lemma init_clientless:
  "proxy_LLM_init (args_for ''foo'') with_key (scripted (\<lambda>n. NoAnswer) []) = Inr clientless_gateway"
  by (simp add: proxy_LLM_init_def args_for_def proxy_defaults_def with_key_def scripted_def
        example_files_def clientless_gateway_def DEFAULT_MAX_RETRIES_def proxy_DEFAULT_TIMEOUT_def Let_def)

section \<open>The claims\<close>

text \<open>
  In every statement below the result of a call is the first component of what the
  method returns, the gateway object as the call leaves it the second, and the world
  after the call the third.
\<close>

subsection \<open>A successful backend\<close>

text \<open>
  Claim C1. For every non-empty digest and every backend answer whose content field
  holds a text \<open>c\<close>, a call with \<open>dry_run = False\<close> returns exactly \<open>c\<close>. The content
  field is \<^verbatim>\<open>choices[0].message.content\<close> of the status-200 body for the forwarding
  gateways (\<^verbatim>\<open>yesapi\<close> in \<^verbatim>\<open>proxy_llm.py\<close>, the proxy client of \<^verbatim>\<open>llm.py\<close>),
  \<^verbatim>\<open>message.content\<close> of the body for \<^verbatim>\<open>ollama\<close>, and the content of the first
  candidate for the vendor SDK. The gateways are the ones the constructors build.
  The empty text is covered: it comes back as the empty string.
\<close>

theorem generate_returns_backend_content:
  assumes "markdown_content \<noteq> []"
  shows
   "(proxy_LLM_init a env w0 = Inr self
       \<and> (a_model_type a = ''yesapi'' \<or> a_model_type a = ''ollama'')
       \<and> http_answers w 0 200 body \<and> content_field (a_model_type a) body = Some (JStr c)
     \<longrightarrow> fst (generate_github_daily_report self markdown_content prompt False w) = Inr (JStr c))
  \<and> (proxy_LLM_init a env w0 = Inr self \<and> a_model_type a = ''openai''
       \<and> sdk_answers w (Some c # rest)
     \<longrightarrow> fst (generate_github_daily_report self markdown_content prompt False w) = Inr (JStr c))
  \<and> (LLM_init n t env w0 = Inr self' \<and> nonempty (getenv env ''OPENAI_PROXY_URL'')
       \<and> http_answers w 0 200 body \<and> forwarded_content body = Some (JStr c)
     \<longrightarrow> fst (generate_daily_report self' markdown_content prompt False w) = Inr (JStr c))
  \<and> (LLM_init n t env w0 = Inr self' \<and> \<not> nonempty (getenv env ''OPENAI_PROXY_URL'')
       \<and> sdk_answers w (Some c # rest)
     \<longrightarrow> fst (generate_daily_report self' markdown_content prompt False w) = Inr (JStr c))"
proof (intro conjI impI)
  assume h: "proxy_LLM_init a env w0 = Inr self
       \<and> (a_model_type a = ''yesapi'' \<or> a_model_type a = ''ollama'')
       \<and> http_answers w 0 200 body \<and> content_field (a_model_type a) body = Some (JStr c)"
  then have init: "proxy_LLM_init a env w0 = Inr self" by simp
  from h have mt: "p_model_type self = ''yesapi'' \<or> p_model_type self = ''ollama''"
    using proxy_init_fields(1) [OF init] by simp
  from h obtain cl where cl: "p_client self = Some (Custom cl)"
      "c_retries cl = retry_strategy (a_max_retries a)"
    using proxy_init_client [OF init] by auto
  have "fst (generate_github_daily_report self markdown_content prompt False w) =
           Inr (if truthy (JStr c) then JStr c else JStr [])"
    using h proxy_init_fields(1) [OF init]
    by (intro github_report_http [OF cl, of 0 w body] mt) simp_all
  then show "fst (generate_github_daily_report self markdown_content prompt False w) = Inr (JStr c)"
    by simp
next
  assume h: "proxy_LLM_init a env w0 = Inr self \<and> a_model_type a = ''openai''
       \<and> sdk_answers w (Some c # rest)"
  then have init: "proxy_LLM_init a env w0 = Inr self" by simp
  from h have "p_client self = Some OpenAI" "p_model_type self = ''openai''"
    using proxy_init_client [OF init] proxy_init_fields(1) [OF init] by simp_all
  with h show "fst (generate_github_daily_report self markdown_content prompt False w) = Inr (JStr c)"
    using github_report_sdk by blast
next
  assume h: "LLM_init n t env w0 = Inr self' \<and> nonempty (getenv env ''OPENAI_PROXY_URL'')
       \<and> http_answers w 0 200 body \<and> forwarded_content body = Some (JStr c)"
  then have init: "LLM_init n t env w0 = Inr self'" by simp
  from h obtain cl where cl: "client self' = Custom cl" "c_retries cl = retry_strategy n"
    using llm_init_client [OF init] by auto
  have "fst (generate_daily_report self' markdown_content prompt False w) =
           Inr (if truthy (JStr c) then JStr c else JStr [])"
    using h by (intro daily_report_http [OF cl, of 0 w body]) simp_all
  then show "fst (generate_daily_report self' markdown_content prompt False w) = Inr (JStr c)"
    by simp
next
  assume h: "LLM_init n t env w0 = Inr self' \<and> \<not> nonempty (getenv env ''OPENAI_PROXY_URL'')
       \<and> sdk_answers w (Some c # rest)"
  then have init: "LLM_init n t env w0 = Inr self'" by simp
  from h have "client self' = OpenAI"
    using llm_init_client [OF init] by simp
  with h show "fst (generate_daily_report self' markdown_content prompt False w) = Inr (JStr c)"
    using daily_report_sdk by blast
qed

theorem generate_returns_backend_content_witness:
  "example_digest \<noteq> []
   \<and> fst (generate_github_daily_report yesapi_gateway example_digest None False
        (scripted (\<lambda>n. Answer 200 (forwarded_body ''Two changes landed.'')) []))
       = Inr (JStr ''Two changes landed.'')
   \<and> fst (generate_github_daily_report ollama_gateway example_digest None False
        (scripted (\<lambda>n. Answer 200 (local_body ''Two changes landed.'')) []))
       = Inr (JStr ''Two changes landed.'')
   \<and> fst (generate_github_daily_report openai_gateway example_digest None False
        (scripted (\<lambda>n. NoAnswer) [Some ''Two changes landed.'']))
       = Inr (JStr ''Two changes landed.'')
   \<and> fst (generate_daily_report llm_proxy_gateway example_digest None False
        (scripted (\<lambda>n. Answer 200 (forwarded_body ''Two changes landed.'')) []))
       = Inr (JStr ''Two changes landed.'')
   \<and> fst (generate_daily_report llm_sdk_gateway example_digest None False
        (scripted (\<lambda>n. NoAnswer) [Some ''Two changes landed.'']))
       = Inr (JStr ''Two changes landed.'')"
proof -
  have d: "example_digest \<noteq> []" by (simp add: example_digest_def)
  note inst = generate_returns_backend_content [OF d, where prompt = None
      and ?w0.0 = "scripted (\<lambda>n. NoAnswer) []" and c = "''Two changes landed.''" and rest = "[]"
      and n = 5 and t = 30]
  show ?thesis
    using d
      inst [where a = "args_for ''yesapi''" and env = with_key and self = yesapi_gateway
        and w = "scripted (\<lambda>n. Answer 200 (forwarded_body ''Two changes landed.'')) []"
        and body = "forwarded_body ''Two changes landed.''" and self' = llm_sdk_gateway]
      inst [where a = "args_for ''ollama''" and env = with_key and self = ollama_gateway
        and w = "scripted (\<lambda>n. Answer 200 (local_body ''Two changes landed.'')) []"
        and body = "local_body ''Two changes landed.''" and self' = llm_sdk_gateway]
      inst [where a = "args_for ''openai''" and env = with_key and self = openai_gateway
        and w = "scripted (\<lambda>n. NoAnswer) [Some ''Two changes landed.'']"
        and body = JNull and self' = llm_sdk_gateway]
      inst [where a = "args_for ''yesapi''" and env = with_proxy and self = yesapi_gateway
        and w = "scripted (\<lambda>n. Answer 200 (forwarded_body ''Two changes landed.'')) []"
        and body = "forwarded_body ''Two changes landed.''" and self' = llm_proxy_gateway]
    by (simp add: init_yesapi init_ollama init_openai init_llm_proxy init_llm_sdk
          scripted_answers example_contents)
qed

subsection \<open>Retries that are used up\<close>

text \<open>
  Claim C2, as the code has it. For a \<^verbatim>\<open>yesapi\<close> or \<^verbatim>\<open>ollama\<close> gateway built by the
  constructor of \<^verbatim>\<open>proxy_llm.py\<close>, and for the forwarding gateway built by the
  constructor of \<^verbatim>\<open>llm.py\<close>: if the backend answers all \<open>max_retries + 1\<close> attempts
  with status 500, the call returns the empty string as its ordinary result (it does
  not raise), and exactly \<open>max_retries + 1\<close> identical requests go out. \<open>max_retries\<close>
  is an argument of both constructors whose default is 5. The retry loop is the one
  modelled from the specification's Transport Client.
\<close>

theorem exhausted_returns_empty_string:
  "(proxy_LLM_init a env w0 = Inr self
      \<and> (a_model_type a = ''yesapi'' \<or> a_model_type a = ''ollama'')
      \<and> (\<forall>i\<le>a_max_retries a. \<exists>b. http_answers w i 500 b) \<longrightarrow>
    fst (generate_github_daily_report self markdown_content prompt False w) = Inr (JStr [])
    \<and> sent (snd (snd (generate_github_daily_report self markdown_content prompt False w))) =
        sent w @ replicate (a_max_retries a + 1)
          (prepare_request
             (proxy_CustomHTTPClient
                (if a_model_type a = ''yesapi'' then getenv env ''OPENAI_API_KEY'' else None)
                (Some (request_api_url (a_model_type a))) (a_max_retries a) (a_timeout a))
             ''POST'' (request_api_url (a_model_type a))
             (proxy_data (a_model_type a) (a_model_name a)
                (conversation (effective_prompt prompt (p_default_prompt self)) markdown_content))
             (a_timeout a)))
   \<and> (LLM_init n t env w0 = Inr self'
      \<and> nonempty (getenv env ''OPENAI_PROXY_URL'')
      \<and> (\<forall>i\<le>n. \<exists>b. http_answers w i 500 b) \<longrightarrow>
    fst (generate_daily_report self' markdown_content prompt False w) = Inr (JStr [])
    \<and> sent (snd (snd (generate_daily_report self' markdown_content prompt False w))) =
        sent w @ replicate (n + 1)
          (prepare_request
             (llm_CustomHTTPClient (getenv env ''OPENAI_API_KEY'') (getenv env ''OPENAI_PROXY_URL'') n t)
             ''POST'' API_URL
             (llm_data (conversation (effective_prompt prompt (default_prompt self')) markdown_content))
             t))
   \<and> a_max_retries proxy_defaults = 5 \<and> DEFAULT_MAX_RETRIES = 5"
proof (intro conjI impI)
  assume h: "proxy_LLM_init a env w0 = Inr self
      \<and> (a_model_type a = ''yesapi'' \<or> a_model_type a = ''ollama'')
      \<and> (\<forall>i\<le>a_max_retries a. \<exists>b. http_answers w i 500 b)"
  then have init: "proxy_LLM_init a env w0 = Inr self"
    and mt: "a_model_type a = ''yesapi'' \<or> a_model_type a = ''ollama''" by simp_all
  let ?cl = "proxy_CustomHTTPClient
                (if a_model_type a = ''yesapi'' then getenv env ''OPENAI_API_KEY'' else None)
                (Some (request_api_url (a_model_type a))) (a_max_retries a) (a_timeout a)"
  have cl: "p_client self = Some (Custom ?cl)" "c_retries ?cl = retry_strategy (a_max_retries a)"
    using proxy_init_http_client [OF init mt] by simp_all
  have ty: "p_model_type self = a_model_type a" and nm: "p_model_name self = a_model_name a"
    using proxy_init_fields [OF init] by simp_all
  have no: "p_model_type self \<noteq> ''openai''" using ty mt by auto
  have busy': "\<forall>i\<le>a_max_retries a. \<exists>st b. st \<in> {429, 500, 502, 503, 504} \<and> http_answers w i st b"
    using h by blast
  show "fst (generate_github_daily_report self markdown_content prompt False w) = Inr (JStr [])"
    by (rule github_report_exhausted(1) [OF cl busy' no])
  show "sent (snd (snd (generate_github_daily_report self markdown_content prompt False w))) =
        sent w @ replicate (a_max_retries a + 1)
          (prepare_request ?cl ''POST'' (request_api_url (a_model_type a))
             (proxy_data (a_model_type a) (a_model_name a)
                (conversation (effective_prompt prompt (p_default_prompt self)) markdown_content))
             (a_timeout a))"
    using github_report_exhausted(2) [OF cl busy' no, of markdown_content prompt] ty nm by simp
next
  assume h: "LLM_init n t env w0 = Inr self'
      \<and> nonempty (getenv env ''OPENAI_PROXY_URL'')
      \<and> (\<forall>i\<le>n. \<exists>b. http_answers w i 500 b)"
  then have init: "LLM_init n t env w0 = Inr self'" by simp
  let ?cl = "llm_CustomHTTPClient (getenv env ''OPENAI_API_KEY'') (getenv env ''OPENAI_PROXY_URL'') n t"
  have cl: "client self' = Custom ?cl" "c_retries ?cl = retry_strategy n"
    using llm_init_client [OF init] h by simp_all
  have busy': "\<forall>i\<le>n. \<exists>st b. st \<in> {429, 500, 502, 503, 504} \<and> http_answers w i st b"
    using h by blast
  show "fst (generate_daily_report self' markdown_content prompt False w) = Inr (JStr [])"
    by (rule daily_report_exhausted(1) [OF cl busy'])
  show "sent (snd (snd (generate_daily_report self' markdown_content prompt False w))) =
        sent w @ replicate (n + 1)
          (prepare_request ?cl ''POST'' API_URL
             (llm_data (conversation (effective_prompt prompt (default_prompt self')) markdown_content))
             t)"
    using daily_report_exhausted(2) [OF cl busy', of markdown_content prompt] by simp
qed (simp_all add: proxy_defaults_def DEFAULT_MAX_RETRIES_def)

theorem exhausted_returns_empty_string_witness:
  "proxy_LLM_init (args_for ''yesapi'') with_key idle_world = Inr yesapi_gateway
   \<and> LLM_init 5 30 with_proxy idle_world = Inr llm_proxy_gateway
   \<and> nonempty (getenv with_proxy ''OPENAI_PROXY_URL'')
   \<and> http_answers failing_world 0 500 JNull
   \<and> http_answers failing_world 5 500 JNull
   \<and> fst (generate_github_daily_report yesapi_gateway example_digest None False failing_world)
       = Inr (JStr [])
   \<and> length (sent (snd (snd (generate_github_daily_report yesapi_gateway example_digest None False
        failing_world)))) = 6
   \<and> fst (generate_daily_report llm_proxy_gateway example_digest None False failing_world)
       = Inr (JStr [])
   \<and> length (sent (snd (snd (generate_daily_report llm_proxy_gateway example_digest None False
        failing_world)))) = 6"
proof -
  have busy: "\<forall>i\<le>a_max_retries (args_for ''yesapi''). \<exists>b. http_answers failing_world i 500 b"
     "\<forall>i\<le>5. \<exists>b. http_answers failing_world i 500 b"
    by (simp_all add: failing_world_def scripted_answers)
  have m: "a_max_retries (args_for ''yesapi'') = 5"
    by (simp add: args_for_def proxy_defaults_def DEFAULT_MAX_RETRIES_def)
  have s: "sent failing_world = []" by (simp add: failing_world_def scripted_def)
  have i: "proxy_LLM_init (args_for ''yesapi'') with_key idle_world = Inr yesapi_gateway"
    "LLM_init 5 30 with_proxy idle_world = Inr llm_proxy_gateway"
    using init_yesapi init_llm_proxy by (simp_all add: idle_world_def)
  show ?thesis
    using exhausted_returns_empty_string [of "args_for ''yesapi''" with_key idle_world yesapi_gateway
        failing_world example_digest None 5 30 llm_sdk_gateway]
      exhausted_returns_empty_string [of "args_for ''yesapi''" with_proxy idle_world yesapi_gateway
        failing_world example_digest None 5 30 llm_proxy_gateway]
      busy m s i
    by (simp add: failing_world_def scripted_answers)
qed

text \<open>
  Claim C2 as stated asks for a failure of kind Exhausted. The value returned when
  the retries are used up is the plain empty string, and the same value comes back
  when the backend answers at once with status 200 and an empty \<^verbatim>\<open>choices\<close> list: the
  result carries no failure kind.
\<close>

theorem exhausted_kind_counterexample:
  "fst (generate_github_daily_report yesapi_gateway example_digest None False failing_world)
     = Inr (JStr [])
   \<and> fst (generate_github_daily_report yesapi_gateway example_digest None False no_choices_world)
     = Inr (JStr [])"
proof -
  let ?cl = "proxy_CustomHTTPClient (Some ''sk-test'') (Some API_URL) 5 2000"
  have cl: "p_client yesapi_gateway = Some (Custom ?cl)" "c_retries ?cl = retry_strategy 5"
    by (simp_all add: yesapi_gateway_def)
  have ty: "p_model_type yesapi_gateway \<noteq> ''openai''" by (simp add: yesapi_gateway_def)
  have busy: "\<forall>i\<le>5. \<exists>st b. st \<in> {429, 500, 502, 503, 504} \<and> http_answers failing_world i st b"
    by (simp add: failing_world_def scripted_answers)
  have first: "fst (generate_github_daily_report yesapi_gateway example_digest None False failing_world)
     = Inr (JStr [])"
    by (rule github_report_exhausted(1) [OF cl busy ty])
  have ok: "http_answers no_choices_world 0 200 (JObj [(''choices'', JArr [])])"
    by (simp add: no_choices_world_def scripted_answers)
  have second: "fst (generate_github_daily_report yesapi_gateway example_digest None False no_choices_world)
     = Inr (JStr [])"
    using github_report_answered [OF cl ok,
        of "conversation (effective_prompt None example_prompt) example_digest"]
    by (simp add: generate_github_daily_report_def yesapi_gateway_def proxy_get_response_def
          proxy_try_def request_api_url_def Let_def)
  from first second show ?thesis by simp
qed

subsection \<open>Dry run\<close>

text \<open>
  Claim C3. For every digest and prompt, a call with \<open>dry_run = True\<close> sends no HTTP
  request and makes no SDK call. When the file can be opened for writing and every
  character of the dump can be encoded, the call returns the sentinel \<^verbatim>\<open>DRY RUN\<close>,
  whatever the backend would have answered, and the file holds the JSON dump of the
  two-message conversation (system: the effective prompt, user: the digest), written
  out in \<open>conversation_text\<close>. The call fails only when the write to the local file
  fails: with OSError when the file cannot be opened, the files staying as they were,
  and with UnicodeEncodeError when a character cannot be encoded, the file being left
  with a proper initial part of the dump. The location does not depend on the digest
  or the prompt: it is the gateway's \<open>prompt_file_path\<close> in \<^verbatim>\<open>proxy_llm.py\<close> and
  \<^verbatim>\<open>daily_progress/prompt.txt\<close> in \<^verbatim>\<open>llm.py\<close>.
\<close>

theorem dry_run_writes_and_returns_sentinel:
  "sent (snd (snd (generate_github_daily_report self markdown_content prompt True w))) = sent w
   \<and> sdk_calls (snd (snd (generate_github_daily_report self markdown_content prompt True w))) = sdk_calls w
   \<and> (writable w (p_prompt_file_path self)
        \<and> list_all (encodable w)
             (conversation_text (effective_prompt prompt (p_default_prompt self)) markdown_content) \<longrightarrow>
        fst (generate_github_daily_report self markdown_content prompt True w) = Inr (JStr ''DRY RUN'')
        \<and> files (snd (snd (generate_github_daily_report self markdown_content prompt True w)))
            = (files w)(p_prompt_file_path self \<mapsto>
                 conversation_text (effective_prompt prompt (p_default_prompt self)) markdown_content))
   \<and> (\<not> writable w (p_prompt_file_path self) \<longrightarrow>
        fst (generate_github_daily_report self markdown_content prompt True w) = Inl OSError
        \<and> files (snd (snd (generate_github_daily_report self markdown_content prompt True w))) = files w)
   \<and> (writable w (p_prompt_file_path self)
        \<and> \<not> list_all (encodable w)
             (conversation_text (effective_prompt prompt (p_default_prompt self)) markdown_content) \<longrightarrow>
        fst (generate_github_daily_report self markdown_content prompt True w) = Inl UnicodeEncodeError
        \<and> (\<exists>part rest. rest \<noteq> []
              \<and> conversation_text (effective_prompt prompt (p_default_prompt self)) markdown_content
                  = part @ rest
              \<and> files (snd (snd (generate_github_daily_report self markdown_content prompt True w)))
                  = (files w)(p_prompt_file_path self \<mapsto> part)))
   \<and> sent (snd (snd (generate_daily_report self' markdown_content prompt True w))) = sent w
   \<and> sdk_calls (snd (snd (generate_daily_report self' markdown_content prompt True w))) = sdk_calls w
   \<and> (writable w ''daily_progress/prompt.txt''
        \<and> list_all (encodable w)
             (conversation_text (effective_prompt prompt (default_prompt self')) markdown_content) \<longrightarrow>
        fst (generate_daily_report self' markdown_content prompt True w) = Inr (JStr ''DRY RUN'')
        \<and> files (snd (snd (generate_daily_report self' markdown_content prompt True w)))
            = (files w)(''daily_progress/prompt.txt'' \<mapsto>
                 conversation_text (effective_prompt prompt (default_prompt self')) markdown_content))
   \<and> (\<not> writable w ''daily_progress/prompt.txt'' \<longrightarrow>
        fst (generate_daily_report self' markdown_content prompt True w) = Inl OSError
        \<and> files (snd (snd (generate_daily_report self' markdown_content prompt True w))) = files w)
   \<and> (writable w ''daily_progress/prompt.txt''
        \<and> \<not> list_all (encodable w)
             (conversation_text (effective_prompt prompt (default_prompt self')) markdown_content) \<longrightarrow>
        fst (generate_daily_report self' markdown_content prompt True w) = Inl UnicodeEncodeError
        \<and> (\<exists>part rest. rest \<noteq> []
              \<and> conversation_text (effective_prompt prompt (default_prompt self')) markdown_content
                  = part @ rest
              \<and> files (snd (snd (generate_daily_report self' markdown_content prompt True w)))
                  = (files w)(''daily_progress/prompt.txt'' \<mapsto> part)))"
proof -
  have g: "\<not> list_all (encodable w)
             (conversation_text (effective_prompt prompt (p_default_prompt self)) markdown_content) \<Longrightarrow>
        \<exists>part rest. rest \<noteq> []
              \<and> conversation_text (effective_prompt prompt (p_default_prompt self)) markdown_content
                  = part @ rest
              \<and> (files w)(p_prompt_file_path self \<mapsto>
                   concat (takeWhile (list_all (encodable w))
                     (iterencode 0 (conversation (effective_prompt prompt (p_default_prompt self))
                        markdown_content))))
                  = (files w)(p_prompt_file_path self \<mapsto> part)"
    using cut_short [of "encodable w" "effective_prompt prompt (p_default_prompt self)" markdown_content]
    by blast
  have d: "\<not> list_all (encodable w)
             (conversation_text (effective_prompt prompt (default_prompt self')) markdown_content) \<Longrightarrow>
        \<exists>part rest. rest \<noteq> []
              \<and> conversation_text (effective_prompt prompt (default_prompt self')) markdown_content
                  = part @ rest
              \<and> (files w)(''daily_progress/prompt.txt'' \<mapsto>
                   concat (takeWhile (list_all (encodable w))
                     (iterencode 0 (conversation (effective_prompt prompt (default_prompt self'))
                        markdown_content))))
                  = (files w)(''daily_progress/prompt.txt'' \<mapsto> part)"
    using cut_short [of "encodable w" "effective_prompt prompt (default_prompt self')" markdown_content]
    by blast
  show ?thesis
    using g d by (simp add: github_dry_run daily_dry_run)
qed

theorem dry_run_writes_and_returns_sentinel_witness:
  "writable answering_world (p_prompt_file_path yesapi_gateway)
   \<and> list_all (encodable answering_world) (conversation_text tricky_text example_digest)
   \<and> fst (generate_github_daily_report yesapi_gateway example_digest (Some tricky_text) True
            answering_world) = Inr (JStr ''DRY RUN'')
   \<and> sent (snd (snd (generate_github_daily_report yesapi_gateway example_digest (Some tricky_text) True
            answering_world))) = []
   \<and> files (snd (snd (generate_github_daily_report yesapi_gateway example_digest (Some tricky_text) True
            answering_world))) ''prompts/github_openai_report_prompt.txt'' = Some tricky_file
   \<and> \<not> writable read_only_world (p_prompt_file_path yesapi_gateway)
   \<and> fst (generate_github_daily_report yesapi_gateway example_digest None True read_only_world)
       = Inl OSError
   \<and> files (snd (snd (generate_github_daily_report yesapi_gateway example_digest None True
            read_only_world))) ''prompts/github_openai_report_prompt.txt'' = Some ''Summarize the following:''
   \<and> \<not> list_all (encodable ascii_world) (conversation_text example_prompt accented_text)
   \<and> fst (generate_github_daily_report yesapi_gateway accented_text None True ascii_world)
       = Inl UnicodeEncodeError
   \<and> files (snd (snd (generate_github_daily_report yesapi_gateway accented_text None True
            ascii_world))) ''prompts/github_openai_report_prompt.txt'' = Some stopped_file
   \<and> fst (generate_daily_report llm_sdk_gateway example_digest (Some tricky_text) True
            answering_world) = Inr (JStr ''DRY RUN'')
   \<and> files (snd (snd (generate_daily_report llm_sdk_gateway example_digest (Some tricky_text) True
            answering_world))) ''daily_progress/prompt.txt'' = Some tricky_file
   \<and> fst (generate_daily_report llm_sdk_gateway example_digest None True read_only_world)
       = Inl OSError
   \<and> fst (generate_daily_report llm_sdk_gateway accented_text None True ascii_world)
       = Inl UnicodeEncodeError
   \<and> files (snd (snd (generate_daily_report llm_sdk_gateway accented_text None True
            ascii_world))) ''daily_progress/prompt.txt'' = Some stopped_file"
proof -
  have w: "writable answering_world p" "encodable answering_world c" "sent answering_world = []"
    "\<not> writable read_only_world p" "files read_only_world = example_files"
    "writable ascii_world p" "encodable ascii_world = (\<lambda>c. (of_char c :: nat) < 128)"
    for p c
    by (simp_all add: answering_world_def read_only_world_def read_only_def ascii_world_def
          idle_world_def scripted_def)
  have all: "list_all (encodable answering_world) t" for t
    by (simp add: w list_all_iff)
  have g: "p_prompt_file_path yesapi_gateway = ''prompts/github_openai_report_prompt.txt''"
    "p_default_prompt yesapi_gateway = example_prompt" "default_prompt llm_sdk_gateway = example_prompt"
    by (simp_all add: yesapi_gateway_def llm_sdk_gateway_def)
  have e: "effective_prompt (Some tricky_text) d = tricky_text" "effective_prompt None d = d" for d
    by (simp_all add: effective_prompt_def tricky_text_def)
  have bad: "\<not> list_all (\<lambda>c. (of_char c :: nat) < 128) (conversation_text example_prompt accented_text)"
    by (simp add: conversation_text_def accented_text_def encode_basestring_def escape_char_def)
  have old: "example_files ''prompts/github_openai_report_prompt.txt'' = Some ''Summarize the following:''"
    by (simp add: example_files_def example_prompt_def)
  show ?thesis
    using dry_run_writes_and_returns_sentinel [of yesapi_gateway example_digest "Some tricky_text"
            answering_world llm_sdk_gateway]
          dry_run_writes_and_returns_sentinel [of yesapi_gateway example_digest None
            read_only_world llm_sdk_gateway]
          dry_run_writes_and_returns_sentinel [of yesapi_gateway accented_text None
            ascii_world llm_sdk_gateway]
    by (simp add: w all g e bad old example_file_texts github_dry_run daily_dry_run)
qed

subsection \<open>The effective prompt\<close>

text \<open>
  Claim C4, as the code has it. The system prompt of a call is the caller's override
  when one is given and is not empty, and the gateway's default prompt when the
  override is absent or empty (\<^verbatim>\<open>if not prompt\<close>). \<open>s\<close> and \<open>s'\<close> below are the
  prompts this rule gives for a gateway object of \<^verbatim>\<open>proxy_llm.py\<close> and one of
  \<^verbatim>\<open>llm.py\<close>. Wherever a call lets the conversation out, its system message is that
  prompt and its user message the digest: in every HTTP request of a call through a
  transport client (whatever the model type), in the body handed to the vendor SDK,
  and in the dry-run file, for \<open>generate_github_daily_report\<close>, for
  \<open>generate_hn_daily_report\<close> (equal to it) and for \<open>generate_daily_report\<close>. The
  remaining calls of the proxy gateway (no client, or a client of the wrong class for
  the model type) send nothing.
\<close>

theorem override_used_unless_empty:
  assumes rule: "prompt = Some s \<and> s \<noteq> [] \<or> (prompt = None \<or> prompt = Some []) \<and> s = p_default_prompt self"
    and rule': "prompt = Some s' \<and> s' \<noteq> [] \<or> (prompt = None \<or> prompt = Some []) \<and> s' = default_prompt self'"
  shows "(p_client self = Some (Custom cl) \<and> p_model_type self \<noteq> ''openai'' \<longrightarrow>
           (\<exists>m\<le>total (c_retries cl). \<exists>req.
              sent (snd (snd (generate_github_daily_report self markdown_content prompt False w))) =
                sent w @ replicate (Suc m) req
              \<and> member (rq_json req) ''messages'' =
                  Some (JArr [JObj [(''role'', JStr ''system''), (''content'', JStr s)],
                              JObj [(''role'', JStr ''user''), (''content'', JStr markdown_content)]])))
    \<and> (p_client self = Some OpenAI \<and> p_model_type self = ''openai'' \<longrightarrow>
           (\<exists>data.
              sdk_calls (snd (snd (generate_github_daily_report self markdown_content prompt False w))) =
                sdk_calls w @ [data]
              \<and> member data ''messages'' =
                  Some (JArr [JObj [(''role'', JStr ''system''), (''content'', JStr s)],
                              JObj [(''role'', JStr ''user''), (''content'', JStr markdown_content)]])))
    \<and> (p_client self = None
         \<or> p_client self = Some (Custom cl) \<and> p_model_type self = ''openai''
         \<or> p_client self = Some OpenAI \<and> p_model_type self \<noteq> ''openai'' \<longrightarrow>
           sent (snd (snd (generate_github_daily_report self markdown_content prompt False w))) = sent w
           \<and> sdk_calls (snd (snd (generate_github_daily_report self markdown_content prompt False w)))
               = sdk_calls w)
    \<and> (writable w (p_prompt_file_path self) \<and> list_all (encodable w) (conversation_text s markdown_content) \<longrightarrow>
           files (snd (snd (generate_github_daily_report self markdown_content prompt True w)))
             (p_prompt_file_path self) = Some (conversation_text s markdown_content))
    \<and> generate_hn_daily_report self markdown_content prompt dry_run w =
        generate_github_daily_report self markdown_content prompt dry_run w
    \<and> (client self' = Custom cl' \<longrightarrow>
           (\<exists>m\<le>total (c_retries cl'). \<exists>req.
              sent (snd (snd (generate_daily_report self' markdown_content prompt False w))) =
                sent w @ replicate (Suc m) req
              \<and> member (rq_json req) ''messages'' =
                  Some (JArr [JObj [(''role'', JStr ''system''), (''content'', JStr s')],
                              JObj [(''role'', JStr ''user''), (''content'', JStr markdown_content)]])))
    \<and> (client self' = OpenAI \<longrightarrow>
           (\<exists>data.
              sdk_calls (snd (snd (generate_daily_report self' markdown_content prompt False w))) =
                sdk_calls w @ [data]
              \<and> member data ''messages'' =
                  Some (JArr [JObj [(''role'', JStr ''system''), (''content'', JStr s')],
                              JObj [(''role'', JStr ''user''), (''content'', JStr markdown_content)]])))
    \<and> (writable w ''daily_progress/prompt.txt'' \<and> list_all (encodable w) (conversation_text s' markdown_content) \<longrightarrow>
           files (snd (snd (generate_daily_report self' markdown_content prompt True w)))
             ''daily_progress/prompt.txt'' = Some (conversation_text s' markdown_content))"
proof -
  have s: "effective_prompt prompt (p_default_prompt self) = s"
    using rule by (auto simp: effective_prompt_def)
  have s': "effective_prompt prompt (default_prompt self') = s'"
    using rule' by (auto simp: effective_prompt_def)
  have c: "conversation p markdown_content =
      JArr [JObj [(''role'', JStr ''system''), (''content'', JStr p)],
            JObj [(''role'', JStr ''user''), (''content'', JStr markdown_content)]]" for p
    by (simp add: conversation_def)
  have http: "\<exists>m\<le>total (c_retries cl). \<exists>req.
              sent (snd (snd (generate_github_daily_report self markdown_content prompt False w))) =
                sent w @ replicate (Suc m) req
              \<and> member (rq_json req) ''messages'' = Some (conversation s markdown_content)"
    if "p_client self = Some (Custom cl)" "p_model_type self \<noteq> ''openai''"
  proof -
    from github_report_net [OF that, of markdown_content prompt w]
    obtain m where "m \<le> total (c_retries cl)"
      "sent (snd (snd (generate_github_daily_report self markdown_content prompt False w))) =
         sent w @ replicate (Suc m)
           (prepare_request cl ''POST'' (request_api_url (p_model_type self))
              (proxy_data (p_model_type self) (p_model_name self) (conversation s markdown_content))
              (c_timeout cl))"
      using s by auto
    then show ?thesis
      by (intro exI [of _ m] conjI exI [of _ "prepare_request cl ''POST'' (request_api_url (p_model_type self))
              (proxy_data (p_model_type self) (p_model_name self) (conversation s markdown_content))
              (c_timeout cl)"]) simp_all
  qed
  have http': "\<exists>m\<le>total (c_retries cl'). \<exists>req.
              sent (snd (snd (generate_daily_report self' markdown_content prompt False w))) =
                sent w @ replicate (Suc m) req
              \<and> member (rq_json req) ''messages'' = Some (conversation s' markdown_content)"
    if "client self' = Custom cl'"
  proof -
    from daily_report_net [OF that, of markdown_content prompt w]
    obtain m where "m \<le> total (c_retries cl')"
      "sent (snd (snd (generate_daily_report self' markdown_content prompt False w))) =
         sent w @ replicate (Suc m)
           (prepare_request cl' ''POST'' API_URL (llm_data (conversation s' markdown_content)) (c_timeout cl'))"
      using s' by auto
    then show ?thesis
      by (intro exI [of _ m] conjI exI [of _ "prepare_request cl' ''POST'' API_URL
              (llm_data (conversation s' markdown_content)) (c_timeout cl')"]) simp_all
  qed
  have sdk: "\<exists>data.
              sdk_calls (snd (snd (generate_github_daily_report self markdown_content prompt False w))) =
                sdk_calls w @ [data]
              \<and> member data ''messages'' = Some (conversation s markdown_content)"
    if "p_client self = Some OpenAI" "p_model_type self = ''openai''"
    using github_report_sdk_calls [OF that, of markdown_content prompt w] s by simp
  have sdk': "\<exists>data.
              sdk_calls (snd (snd (generate_daily_report self' markdown_content prompt False w))) =
                sdk_calls w @ [data]
              \<and> member data ''messages'' = Some (conversation s' markdown_content)"
    if "client self' = OpenAI"
    using daily_report_sdk_calls [OF that, of markdown_content prompt w] s' by simp
  have none: "sent (snd (snd (generate_github_daily_report self markdown_content prompt False w))) = sent w
           \<and> sdk_calls (snd (snd (generate_github_daily_report self markdown_content prompt False w)))
               = sdk_calls w"
    if "p_client self = None
         \<or> p_client self = Some (Custom cl) \<and> p_model_type self = ''openai''
         \<or> p_client self = Some OpenAI \<and> p_model_type self \<noteq> ''openai''"
    using that github_report_nothing_sent [of self markdown_content prompt w] by blast
  show ?thesis
    using http http' sdk sdk' none s s'
    by (simp add: c [symmetric] hn_is_github github_dry_run daily_dry_run)
qed

theorem override_used_unless_empty_witness:
  "(Some tricky_text = Some tricky_text \<and> tricky_text \<noteq> [])
   \<and> set (map (\<lambda>req. member (rq_json req) ''messages'')
        (sent (snd (snd (generate_github_daily_report yesapi_gateway example_digest (Some tricky_text)
           False answering_world))))) =
       {Some (JArr [JObj [(''role'', JStr ''system''), (''content'', JStr tricky_text)],
                    JObj [(''role'', JStr ''user''), (''content'', JStr example_digest)]])}
   \<and> set (map (\<lambda>req. member (rq_json req) ''messages'')
        (sent (snd (snd (generate_github_daily_report ollama_gateway example_digest (Some tricky_text)
           False answering_world))))) =
       {Some (JArr [JObj [(''role'', JStr ''system''), (''content'', JStr tricky_text)],
                    JObj [(''role'', JStr ''user''), (''content'', JStr example_digest)]])}
   \<and> map (\<lambda>data. member data ''messages'')
        (sdk_calls (snd (snd (generate_github_daily_report openai_gateway example_digest (Some tricky_text)
           False answering_world)))) =
       [Some (JArr [JObj [(''role'', JStr ''system''), (''content'', JStr tricky_text)],
                    JObj [(''role'', JStr ''user''), (''content'', JStr example_digest)]])]
   \<and> sent (snd (snd (generate_github_daily_report clientless_gateway example_digest (Some tricky_text)
           False answering_world))) = []
   \<and> files (snd (snd (generate_github_daily_report yesapi_gateway example_digest (Some tricky_text)
           True answering_world))) ''prompts/github_openai_report_prompt.txt'' = Some tricky_file
   \<and> set (map (\<lambda>req. member (rq_json req) ''messages'')
        (sent (snd (snd (generate_daily_report llm_proxy_gateway example_digest (Some tricky_text)
           False answering_world))))) =
       {Some (JArr [JObj [(''role'', JStr ''system''), (''content'', JStr tricky_text)],
                    JObj [(''role'', JStr ''user''), (''content'', JStr example_digest)]])}
   \<and> map (\<lambda>data. member data ''messages'')
        (sdk_calls (snd (snd (generate_daily_report llm_sdk_gateway example_digest (Some tricky_text)
           False answering_world)))) =
       [Some (JArr [JObj [(''role'', JStr ''system''), (''content'', JStr tricky_text)],
                    JObj [(''role'', JStr ''user''), (''content'', JStr example_digest)]])]
   \<and> files (snd (snd (generate_daily_report llm_sdk_gateway example_digest (Some tricky_text)
           True answering_world))) ''daily_progress/prompt.txt'' = Some tricky_file
   \<and> (None = None \<and> example_prompt = p_default_prompt yesapi_gateway)
   \<and> set (map (\<lambda>req. member (rq_json req) ''messages'')
        (sent (snd (snd (generate_github_daily_report yesapi_gateway example_digest None
           False answering_world))))) =
       {Some (JArr [JObj [(''role'', JStr ''system''), (''content'', JStr example_prompt)],
                    JObj [(''role'', JStr ''user''), (''content'', JStr example_digest)]])}"
proof -
  have r: "Some tricky_text = Some tricky_text \<and> tricky_text \<noteq> [] \<or>
      (Some tricky_text = None \<or> Some tricky_text = Some []) \<and> tricky_text = d" for d
    by (simp add: tricky_text_def)
  have r0: "None = Some example_prompt \<and> example_prompt \<noteq> [] \<or>
      (None = None \<or> None = Some []) \<and> example_prompt = p_default_prompt yesapi_gateway"
      "None = Some example_prompt \<and> example_prompt \<noteq> [] \<or>
      (None = None \<or> None = Some []) \<and> example_prompt = default_prompt llm_sdk_gateway"
    by (simp_all add: yesapi_gateway_def llm_sdk_gateway_def)
  have ne: "tricky_text \<noteq> []" by (simp add: tricky_text_def)
  have w: "writable answering_world p" "encodable answering_world c" "sent answering_world = []"
    "sdk_calls answering_world = []" for p c
    by (simp_all add: answering_world_def scripted_def)
  have all: "list_all (encodable answering_world) t" for t
    by (simp add: w list_all_iff)
  have g: "p_client yesapi_gateway = Some (Custom (proxy_CustomHTTPClient (Some ''sk-test'') (Some API_URL) 5 2000))"
    "p_model_type yesapi_gateway = ''yesapi''"
    "p_prompt_file_path yesapi_gateway = ''prompts/github_openai_report_prompt.txt''"
    "p_default_prompt yesapi_gateway = example_prompt"
    "p_client ollama_gateway = Some (Custom (proxy_CustomHTTPClient None (Some OLLAMA_API_URL) 5 2000))"
    "p_model_type ollama_gateway = ''ollama''"
    "p_client openai_gateway = Some OpenAI" "p_model_type openai_gateway = ''openai''"
    "p_client clientless_gateway = None"
    "client llm_proxy_gateway = Custom (llm_CustomHTTPClient (Some ''sk-test'') (Some ''http://127.0.0.1:7890'') 5 30)"
    "client llm_sdk_gateway = OpenAI"
    by (simp_all add: yesapi_gateway_def ollama_gateway_def openai_gateway_def clientless_gateway_def
          llm_proxy_gateway_def llm_sdk_gateway_def)
  note t = override_used_unless_empty [where markdown_content = example_digest and w = answering_world
      and dry_run = True]
  show ?thesis
    using
      t [OF r r, where self = yesapi_gateway and self' = llm_proxy_gateway
        and cl = "proxy_CustomHTTPClient (Some ''sk-test'') (Some API_URL) 5 2000"
        and cl' = "llm_CustomHTTPClient (Some ''sk-test'') (Some ''http://127.0.0.1:7890'') 5 30"]
      t [OF r r, where self = ollama_gateway and self' = llm_sdk_gateway
        and cl = "proxy_CustomHTTPClient None (Some OLLAMA_API_URL) 5 2000"
        and cl' = "llm_CustomHTTPClient (Some ''sk-test'') (Some ''http://127.0.0.1:7890'') 5 30"]
      t [OF r r, where self = openai_gateway and self' = llm_sdk_gateway
        and cl = "proxy_CustomHTTPClient None (Some OLLAMA_API_URL) 5 2000"
        and cl' = "llm_CustomHTTPClient (Some ''sk-test'') (Some ''http://127.0.0.1:7890'') 5 30"]
      t [OF r r, where self = clientless_gateway and self' = llm_sdk_gateway
        and cl = "proxy_CustomHTTPClient None (Some OLLAMA_API_URL) 5 2000"
        and cl' = "llm_CustomHTTPClient (Some ''sk-test'') (Some ''http://127.0.0.1:7890'') 5 30"]
      t [OF r0, where cl = "proxy_CustomHTTPClient (Some ''sk-test'') (Some API_URL) 5 2000"
        and cl' = "llm_CustomHTTPClient (Some ''sk-test'') (Some ''http://127.0.0.1:7890'') 5 30"]
    by (auto simp: ne w all g example_file_texts)
qed

text \<open>
  Claim C4 as stated takes every present override. With the empty string as the
  override and \<^verbatim>\<open>Summarize the following:\<close> as the default, the one request of the
  call carries the default as its system message, not the override.
\<close>

theorem empty_override_counterexample:
  "map rq_json (sent (snd (snd (generate_github_daily_report yesapi_gateway example_digest (Some [])
      False answering_world)))) =
   [JObj [(''model'', JStr ''gpt-4o-mini''),
          (''messages'', JArr [JObj [(''role'', JStr ''system''),
                                     (''content'', JStr ''Summarize the following:'')],
                               JObj [(''role'', JStr ''user''), (''content'', JStr example_digest)]]),
          (''temperature'', JInt 1), (''max_tokens'', JInt 100), (''top_p'', JInt 1)]]"
proof -
  let ?cl = "proxy_CustomHTTPClient (Some ''sk-test'') (Some API_URL) 5 2000"
  have cl: "p_client yesapi_gateway = Some (Custom ?cl)" "c_retries ?cl = retry_strategy 5"
    by (simp_all add: yesapi_gateway_def)
  have ty: "p_model_type yesapi_gateway \<noteq> ''openai''" by (simp add: yesapi_gateway_def)
  have ok: "http_answers answering_world 0 200 (forwarded_body ''Two changes landed.'')"
    by (simp add: answering_world_def scripted_answers)
  have s: "sent answering_world = []" by (simp add: answering_world_def scripted_def)
  show ?thesis
    using github_report_http_sent [OF cl _ _ ok ty, of example_digest "Some []"] s
    by (simp add: prepare_request_def proxy_data_def conversation_def effective_prompt_def
          yesapi_gateway_def example_prompt_def)
qed

subsection \<open>Retries that end in success\<close>

text \<open>
  Claim C5. For a \<^verbatim>\<open>yesapi\<close> gateway built by the constructor and every
  \<open>k \<le> max_retries\<close> (so in particular every \<open>k < max_retries\<close>): if the backend
  answers the first \<open>k\<close> attempts with status 503 and attempt \<open>k + 1\<close> with status 200
  and a body whose content field holds \<open>c\<close>, the call returns \<open>c\<close>, exactly \<open>k + 1\<close>
  requests go out, and all of them are the same request: the same method, URL,
  headers and body, the body being built once from the conversation.
  The retry loop is the one modelled from the specification's Transport Client.
\<close>

theorem retries_then_success:
  assumes init: "proxy_LLM_init a env w0 = Inr self"
    and mt: "a_model_type a = ''yesapi''"
    and k: "k \<le> a_max_retries a"
    and busy: "\<forall>i<k. \<exists>b. http_answers w i 503 b"
    and ok: "http_answers w k 200 body"
    and content: "forwarded_content body = Some (JStr c)"
  shows "fst (generate_github_daily_report self markdown_content prompt False w) = Inr (JStr c)
    \<and> sent (snd (snd (generate_github_daily_report self markdown_content prompt False w))) =
        sent w @ replicate (k + 1)
          (prepare_request
             (proxy_CustomHTTPClient (getenv env ''OPENAI_API_KEY'') (Some API_URL)
                (a_max_retries a) (a_timeout a))
             ''POST'' API_URL
             (proxy_data ''yesapi'' (a_model_name a)
                (conversation (effective_prompt prompt (p_default_prompt self)) markdown_content))
             (a_timeout a))"
proof -
  let ?cl = "proxy_CustomHTTPClient (getenv env ''OPENAI_API_KEY'') (Some API_URL)
                (a_max_retries a) (a_timeout a)"
  have cl: "p_client self = Some (Custom ?cl)" "c_retries ?cl = retry_strategy (a_max_retries a)"
    using proxy_init_client [OF init] mt by simp_all
  have ty: "p_model_type self = ''yesapi''" and nm: "p_model_name self = a_model_name a"
    using proxy_init_fields [OF init] mt by simp_all
  have busy': "\<forall>i<k. \<exists>st b. st \<in> {429, 500, 502, 503, 504} \<and> http_answers w i st b"
    using busy by blast
  have cf: "content_field (p_model_type self) body = Some (JStr c)"
    using content ty by (simp add: content_field_def)
  have "fst (generate_github_daily_report self markdown_content prompt False w) =
          Inr (if truthy (JStr c) then JStr c else JStr [])"
    using ty by (intro github_report_http [OF cl k busy' ok cf]) simp
  moreover have "sent (snd (snd (generate_github_daily_report self markdown_content prompt False w))) =
        sent w @ replicate (Suc k)
          (prepare_request ?cl ''POST'' (request_api_url (p_model_type self))
             (proxy_data (p_model_type self) (p_model_name self)
                (conversation (effective_prompt prompt (p_default_prompt self)) markdown_content))
             (c_timeout ?cl))"
    using ty by (intro github_report_http_sent [OF cl k busy' ok]) simp
  ultimately show ?thesis
    using ty nm by (simp add: request_api_url_def)
qed

theorem retries_then_success_witness:
  "proxy_LLM_init (args_for ''yesapi'') with_key (scripted (\<lambda>n. NoAnswer) []) = Inr yesapi_gateway
   \<and> (2::nat) \<le> a_max_retries (args_for ''yesapi'')
   \<and> http_answers (scripted (\<lambda>n. if n < 2 then Answer 503 JNull
         else Answer 200 (forwarded_body ''Two changes landed.'')) []) 0 503 JNull
   \<and> http_answers (scripted (\<lambda>n. if n < 2 then Answer 503 JNull
         else Answer 200 (forwarded_body ''Two changes landed.'')) []) 1 503 JNull
   \<and> http_answers (scripted (\<lambda>n. if n < 2 then Answer 503 JNull
         else Answer 200 (forwarded_body ''Two changes landed.'')) []) 2 200
        (forwarded_body ''Two changes landed.'')
   \<and> fst (generate_github_daily_report yesapi_gateway example_digest None False
        (scripted (\<lambda>n. if n < 2 then Answer 503 JNull
           else Answer 200 (forwarded_body ''Two changes landed.'')) []))
       = Inr (JStr ''Two changes landed.'')
   \<and> length (sent (snd (snd (generate_github_daily_report yesapi_gateway example_digest None False
        (scripted (\<lambda>n. if n < 2 then Answer 503 JNull
           else Answer 200 (forwarded_body ''Two changes landed.'')) []))))) = 3"
proof -
  let ?w = "scripted (\<lambda>n. if n < 2 then Answer 503 JNull
           else Answer 200 (forwarded_body ''Two changes landed.'')) []"
  have k: "(2::nat) \<le> a_max_retries (args_for ''yesapi'')"
    by (simp add: args_for_def proxy_defaults_def DEFAULT_MAX_RETRIES_def)
  have busy: "\<forall>i<2. \<exists>b. http_answers ?w i 503 b"
    by (simp add: scripted_answers)
  have ok: "http_answers ?w 2 200 (forwarded_body ''Two changes landed.'')"
    by (simp add: scripted_answers)
  have s: "sent ?w = []" by (simp add: scripted_def)
  show ?thesis
    using retries_then_success [OF init_yesapi _ k busy ok example_contents(3),
        of example_digest None] k ok s init_yesapi
    by (simp add: scripted_answers)
qed

subsection \<open>A local answer without a content string\<close>

text \<open>
  Claim C6, as the code has it. For an \<^verbatim>\<open>ollama\<close> gateway built by the constructor
  and every status-200 answer that is a JSON object, the result of the call is fixed
  by what the object holds at \<^verbatim>\<open>message.content\<close>: with nothing there, the empty string;
  with a value that Python counts as false (\<^verbatim>\<open>None\<close>, the empty string, 0, an empty
  list or object), the empty string; with any other value, that value itself, string
  or not. So an answer lacking a \<^verbatim>\<open>message.content\<close> string gives the empty string
  when the content is absent or false, and the content as it stands when it is a
  true value of another type. In no case does the call raise.
\<close>

theorem ollama_without_content_string:
  assumes init: "proxy_LLM_init a env w0 = Inr self"
    and mt: "a_model_type a = ''ollama''"
    and ok: "http_answers w 0 200 (JObj kvs)"
  shows "fst (generate_github_daily_report self markdown_content prompt False w) =
           Inr (case local_content (JObj kvs) of
                  None \<Rightarrow> JStr []
                | Some v \<Rightarrow> if truthy v then v else JStr [])"
proof (cases "local_content (JObj kvs)")
  case None
  let ?cl = "proxy_CustomHTTPClient None (Some OLLAMA_API_URL) (a_max_retries a) (a_timeout a)"
  let ?msgs = "conversation (effective_prompt prompt (p_default_prompt self)) markdown_content"
  have cl: "p_client self = Some (Custom ?cl)" "c_retries ?cl = retry_strategy (a_max_retries a)"
    using proxy_init_client [OF init] mt by simp_all
  have ty: "p_model_type self = ''ollama''"
    using proxy_init_fields(1) [OF init] mt by simp
  note req = github_report_answered [OF cl ok, of ?msgs]
  have "proxy_try (Custom ?cl) ''ollama'' (proxy_data ''ollama'' (p_model_name self) ?msgs)
          (LOG INFO ''Starting report generation using {}--{} model.''
              [ArgStr ''ollama'', ArgStr (p_model_name self)] w)
        = (Inl AttributeError,
            (LOG INFO ''Starting report generation using {}--{} model.''
              [ArgStr ''ollama'', ArgStr (p_model_name self)] w)
            \<lparr>sent := sent w @ [prepare_request ?cl ''POST'' OLLAMA_API_URL
                (proxy_data ''ollama'' (p_model_name self) ?msgs) (c_timeout ?cl)]\<rparr>)"
    using req ty by (intro proxy_try_ollama_no_content [OF _ None]) (simp add: request_api_url_def)
  then show ?thesis
    using cl(1) ty None
    by (simp add: generate_github_daily_report_def proxy_get_response_def Let_def)
next
  case (Some v)
  let ?cl = "proxy_CustomHTTPClient None (Some OLLAMA_API_URL) (a_max_retries a) (a_timeout a)"
  have cl: "p_client self = Some (Custom ?cl)" "c_retries ?cl = retry_strategy (a_max_retries a)"
    using proxy_init_client [OF init] mt by simp_all
  have ty: "p_model_type self = ''ollama''"
    using proxy_init_fields(1) [OF init] mt by simp
  have c: "content_field (p_model_type self) (JObj kvs) = Some v"
    using Some ty by (simp add: content_field_def)
  have "fst (generate_github_daily_report self markdown_content prompt False w) =
           Inr (if truthy v then v else JStr [])"
    by (rule github_report_http [OF cl _ _ ok c]) (simp_all add: ty)
  with Some show ?thesis by simp
qed

theorem ollama_without_content_string_witness:
  "proxy_LLM_init (args_for ''ollama'') with_key idle_world = Inr ollama_gateway
   \<and> http_answers no_content_world 0 200 (JObj [(''message'', JObj [(''role'', JStr ''assistant'')])])
   \<and> fst (generate_github_daily_report ollama_gateway example_digest None False no_content_world)
       = Inr (JStr [])
   \<and> http_answers (scripted (\<lambda>n. Answer 200 (JObj [(''message'', JObj [(''content'', JNull)])])) []) 0 200
       (JObj [(''message'', JObj [(''content'', JNull)])])
   \<and> fst (generate_github_daily_report ollama_gateway example_digest None False
        (scripted (\<lambda>n. Answer 200 (JObj [(''message'', JObj [(''content'', JNull)])])) []))
       = Inr (JStr [])
   \<and> http_answers numeric_content_world 0 200 (JObj [(''message'', JObj [(''content'', JInt 5)])])
   \<and> fst (generate_github_daily_report ollama_gateway example_digest None False numeric_content_world)
       = Inr (JInt 5)"
proof -
  have init: "proxy_LLM_init (args_for ''ollama'') with_key idle_world = Inr ollama_gateway"
    using init_ollama by (simp add: idle_world_def)
  have ok1: "http_answers no_content_world 0 200 (JObj [(''message'', JObj [(''role'', JStr ''assistant'')])])"
    by (simp add: no_content_world_def scripted_answers)
  have ok2: "http_answers (scripted (\<lambda>n. Answer 200 (JObj [(''message'', JObj [(''content'', JNull)])])) []) 0 200
       (JObj [(''message'', JObj [(''content'', JNull)])])"
    by (simp add: scripted_answers)
  have ok3: "http_answers numeric_content_world 0 200 (JObj [(''message'', JObj [(''content'', JInt 5)])])"
    by (simp add: numeric_content_world_def scripted_answers)
  show ?thesis
    using ollama_without_content_string [OF init _ ok1, of example_digest None]
      ollama_without_content_string [OF init _ ok2, of example_digest None]
      ollama_without_content_string [OF init _ ok3, of example_digest None]
      init ok1 ok2 ok3
    by (simp add: local_content_def)
qed

text \<open>
  Claim C6 as stated asks for an InvalidResponseShape failure that carries the raw
  body. Two different bodies without \<^verbatim>\<open>message.content\<close> give the same result, the
  empty string, and the same three log records, none of which holds the body: the
  record that was to show it is never written, because formatting \<^verbatim>\<open>response.text\<close>
  raises AttributeError first, and that exception is what the log shows. And a body
  whose \<^verbatim>\<open>message.content\<close> is the number 5, not a string, is no failure at all: the
  call returns 5.
\<close>

theorem invalid_shape_counterexample:
  "fst (generate_github_daily_report ollama_gateway example_digest None False empty_object_world)
     = Inr (JStr [])
   \<and> logged (snd (snd (generate_github_daily_report ollama_gateway example_digest None False
        empty_object_world)))
     = [Log INFO ''Starting report generation using {}--{} model.''
          [ArgStr ''ollama'', ArgStr ''gpt-4o-mini''],
        Log ERROR ''An error occurred while getting the response: {}'' [ArgExn AttributeError],
        Log ERROR ''Failed to get a valid response from the GPT model.'' []]
   \<and> fst (generate_github_daily_report ollama_gateway example_digest None False no_content_world)
     = Inr (JStr [])
   \<and> logged (snd (snd (generate_github_daily_report ollama_gateway example_digest None False
        no_content_world)))
     = [Log INFO ''Starting report generation using {}--{} model.''
          [ArgStr ''ollama'', ArgStr ''gpt-4o-mini''],
        Log ERROR ''An error occurred while getting the response: {}'' [ArgExn AttributeError],
        Log ERROR ''Failed to get a valid response from the GPT model.'' []]
   \<and> fst (generate_github_daily_report ollama_gateway example_digest None False numeric_content_world)
     = Inr (JInt 5)"
proof -
  let ?cl = "proxy_CustomHTTPClient None (Some OLLAMA_API_URL) 5 2000"
  let ?msgs = "conversation (effective_prompt None (p_default_prompt ollama_gateway)) example_digest"
  have cl: "p_client ollama_gateway = Some (Custom ?cl)" "c_retries ?cl = retry_strategy 5"
    by (simp_all add: ollama_gateway_def)
  have f: "p_model_type ollama_gateway = ''ollama''" "p_model_name ollama_gateway = ''gpt-4o-mini''"
    by (simp_all add: ollama_gateway_def)
  have ok1: "http_answers empty_object_world 0 200 (JObj [(''done'', JBool True)])"
    by (simp add: empty_object_world_def scripted_answers)
  have ok2: "http_answers no_content_world 0 200 (JObj [(''message'', JObj [(''role'', JStr ''assistant'')])])"
    by (simp add: no_content_world_def scripted_answers)
  have l: "logged empty_object_world = []" "logged no_content_world = []"
    by (simp_all add: empty_object_world_def no_content_world_def scripted_def)
  have m1: "local_content (JObj [(''done'', JBool True)]) = None"
    and m2: "local_content (JObj [(''message'', JObj [(''role'', JStr ''assistant'')])]) = None"
    by (simp_all add: local_content_def)
  have t1: "proxy_try (Custom ?cl) ''ollama'' (proxy_data ''ollama'' ''gpt-4o-mini'' ?msgs)
          (LOG INFO ''Starting report generation using {}--{} model.''
              [ArgStr ''ollama'', ArgStr ''gpt-4o-mini''] empty_object_world)
        = (Inl AttributeError,
            (LOG INFO ''Starting report generation using {}--{} model.''
              [ArgStr ''ollama'', ArgStr ''gpt-4o-mini''] empty_object_world)
            \<lparr>sent := sent empty_object_world @ [prepare_request ?cl ''POST'' OLLAMA_API_URL
                (proxy_data ''ollama'' ''gpt-4o-mini'' ?msgs) (c_timeout ?cl)]\<rparr>)"
    using github_report_answered [OF cl ok1, of ?msgs] f
    by (intro proxy_try_ollama_no_content [OF _ m1]) (simp add: request_api_url_def)
  have t2: "proxy_try (Custom ?cl) ''ollama'' (proxy_data ''ollama'' ''gpt-4o-mini'' ?msgs)
          (LOG INFO ''Starting report generation using {}--{} model.''
              [ArgStr ''ollama'', ArgStr ''gpt-4o-mini''] no_content_world)
        = (Inl AttributeError,
            (LOG INFO ''Starting report generation using {}--{} model.''
              [ArgStr ''ollama'', ArgStr ''gpt-4o-mini''] no_content_world)
            \<lparr>sent := sent no_content_world @ [prepare_request ?cl ''POST'' OLLAMA_API_URL
                (proxy_data ''ollama'' ''gpt-4o-mini'' ?msgs) (c_timeout ?cl)]\<rparr>)"
    using github_report_answered [OF cl ok2, of ?msgs] f
    by (intro proxy_try_ollama_no_content [OF _ m2]) (simp add: request_api_url_def)
  have ok3: "http_answers numeric_content_world 0 200 (JObj [(''message'', JObj [(''content'', JInt 5)])])"
    by (simp add: numeric_content_world_def scripted_answers)
  have c3: "content_field (p_model_type ollama_gateway)
      (JObj [(''message'', JObj [(''content'', JInt 5)])]) = Some (JInt 5)"
    by (simp add: f content_field_def local_content_def)
  have t3: "fst (generate_github_daily_report ollama_gateway example_digest None False
      numeric_content_world) = Inr (if truthy (JInt 5) then JInt 5 else JStr [])"
    by (rule github_report_http [OF cl _ _ ok3 c3]) (simp_all add: f)
  show ?thesis
    using t1 t2 t3 cl(1) f l
    by (simp add: generate_github_daily_report_def proxy_get_response_def Let_def)
qed

subsection \<open>The waits between attempts\<close>




subsection \<open>The forwarded request\<close>

text \<open>
  Claim C8, as the code has it, for both gateways that forward over HTTP. Every
  request of a call (there are at most \<open>max_retries + 1\<close>, all the same) is a POST to
  the fixed endpoint whose JSON body is the object with the members \<^verbatim>\<open>model\<close>,
  \<^verbatim>\<open>messages\<close>, \<^verbatim>\<open>temperature\<close> = 1, \<^verbatim>\<open>max_tokens\<close> and \<^verbatim>\<open>top_p\<close> = 1, in this order and
  with no other member; \<^verbatim>\<open>max_tokens\<close> is the integer 100 in \<^verbatim>\<open>proxy_llm.py\<close> and 1000 in
  \<^verbatim>\<open>llm.py\<close>. For a \<^verbatim>\<open>yesapi\<close> gateway of \<^verbatim>\<open>proxy_llm.py\<close>: when \<^verbatim>\<open>OPENAI_API_KEY\<close> is set and
  not empty the session headers are \<^verbatim>\<open>Authorization: Bearer <credential>\<close> and
  \<^verbatim>\<open>Content-Type: application/json\<close>; when it is unset or empty the constructor sets no
  header. For the gateway of \<^verbatim>\<open>llm.py\<close> built with \<^verbatim>\<open>OPENAI_PROXY_URL\<close> set: the two
  headers are always set, and an unset credential is formatted as the text \<^verbatim>\<open>None\<close>.
  The headers are those the constructor sets on the session and the body is the value
  handed to \<^verbatim>\<open>session.request(json=...)\<close>; turning them into bytes is the library's part.
\<close>

theorem forwarded_request_as_sent:
  "(proxy_LLM_init a env w0 = Inr self \<and> a_model_type a = ''yesapi'' \<longrightarrow>
      (\<exists>m\<le>a_max_retries a.
           sent (snd (snd (generate_github_daily_report self markdown_content prompt False w))) =
             sent w @ replicate (Suc m)
               \<lparr>rq_method = ''POST'',
                rq_url = ''https://api.yesapikey.com/v1/chat/completions'',
                rq_headers =
                  (case getenv env ''OPENAI_API_KEY'' of
                     None \<Rightarrow> []
                   | Some credential \<Rightarrow>
                       if credential = [] then []
                       else [(''Authorization'', ''Bearer '' @ credential),
                             (''Content-Type'', ''application/json'')]),
                rq_proxies = [(''http'', ''https://api.yesapikey.com/v1/chat/completions''),
                              (''https'', ''https://api.yesapikey.com/v1/chat/completions'')],
                rq_json =
                  JObj [(''model'', JStr (a_model_name a)),
                        (''messages'',
                         JArr [JObj [(''role'', JStr ''system''),
                                     (''content'', JStr (effective_prompt prompt (p_default_prompt self)))],
                               JObj [(''role'', JStr ''user''), (''content'', JStr markdown_content)]]),
                        (''temperature'', JInt 1), (''max_tokens'', JInt 100), (''top_p'', JInt 1)],
                rq_timeout = a_timeout a\<rparr>))
   \<and> (LLM_init n t env w0 = Inr self' \<and> nonempty (getenv env ''OPENAI_PROXY_URL'') \<longrightarrow>
      (\<exists>m\<le>n.
           sent (snd (snd (generate_daily_report self' markdown_content prompt False w))) =
             sent w @ replicate (Suc m)
               \<lparr>rq_method = ''POST'',
                rq_url = ''https://api.yesapikey.com/v1/chat/completions'',
                rq_headers =
                  [(''Authorization'',
                    ''Bearer '' @ (case getenv env ''OPENAI_API_KEY'' of
                                     None \<Rightarrow> ''None''
                                   | Some credential \<Rightarrow> credential)),
                   (''Content-Type'', ''application/json'')],
                rq_proxies =
                  (case getenv env ''OPENAI_PROXY_URL'' of
                     None \<Rightarrow> []
                   | Some url \<Rightarrow> [(''http'', url), (''https'', url)]),
                rq_json =
                  JObj [(''model'', JStr ''gpt-4o-mini''),
                        (''messages'',
                         JArr [JObj [(''role'', JStr ''system''),
                                     (''content'', JStr (effective_prompt prompt (default_prompt self')))],
                               JObj [(''role'', JStr ''user''), (''content'', JStr markdown_content)]]),
                        (''temperature'', JInt 1), (''max_tokens'', JInt 1000), (''top_p'', JInt 1)],
                rq_timeout = t\<rparr>))"
proof (intro conjI impI)
  assume h: "proxy_LLM_init a env w0 = Inr self \<and> a_model_type a = ''yesapi''"
  then have init: "proxy_LLM_init a env w0 = Inr self" and mt: "a_model_type a = ''yesapi''"
    by simp_all
  let ?cl = "proxy_CustomHTTPClient (getenv env ''OPENAI_API_KEY'') (Some API_URL)
                (a_max_retries a) (a_timeout a)"
  have cl: "p_client self = Some (Custom ?cl)" "c_retries ?cl = retry_strategy (a_max_retries a)"
    using proxy_init_client [OF init] mt by simp_all
  have ty: "p_model_type self = ''yesapi''" and nm: "p_model_name self = a_model_name a"
    using proxy_init_fields [OF init] mt by simp_all
  from ty have no: "p_model_type self \<noteq> ''openai''" by simp
  have req: "prepare_request ?cl ''POST'' (request_api_url (p_model_type self))
            (proxy_data (p_model_type self) (p_model_name self)
               (conversation (effective_prompt prompt (p_default_prompt self)) markdown_content))
            (c_timeout ?cl) =
         \<lparr>rq_method = ''POST'',
                rq_url = ''https://api.yesapikey.com/v1/chat/completions'',
                rq_headers =
                  (case getenv env ''OPENAI_API_KEY'' of
                     None \<Rightarrow> []
                   | Some credential \<Rightarrow>
                       if credential = [] then []
                       else [(''Authorization'', ''Bearer '' @ credential),
                             (''Content-Type'', ''application/json'')]),
                rq_proxies = [(''http'', ''https://api.yesapikey.com/v1/chat/completions''),
                              (''https'', ''https://api.yesapikey.com/v1/chat/completions'')],
                rq_json =
                  JObj [(''model'', JStr (a_model_name a)),
                        (''messages'',
                         JArr [JObj [(''role'', JStr ''system''),
                                     (''content'', JStr (effective_prompt prompt (p_default_prompt self)))],
                               JObj [(''role'', JStr ''user''), (''content'', JStr markdown_content)]]),
                        (''temperature'', JInt 1), (''max_tokens'', JInt 100), (''top_p'', JInt 1)],
                rq_timeout = a_timeout a\<rparr>"
    using ty nm
    by (simp add: prepare_request_def proxy_CustomHTTPClient_def proxies_for_def API_URL_def
          request_api_url_def proxy_data_def conversation_def split: option.splits)
  from github_report_requests [OF cl(1) no cl(2), of markdown_content prompt w]
  obtain m where "m \<le> a_max_retries a"
    "sent (snd (snd (generate_github_daily_report self markdown_content prompt False w))) =
       sent w @ replicate (Suc m)
         (prepare_request ?cl ''POST'' (request_api_url (p_model_type self))
            (proxy_data (p_model_type self) (p_model_name self)
               (conversation (effective_prompt prompt (p_default_prompt self)) markdown_content))
            (c_timeout ?cl))"
    by blast
  then show "\<exists>m\<le>a_max_retries a.
           sent (snd (snd (generate_github_daily_report self markdown_content prompt False w))) =
             sent w @ replicate (Suc m)
               \<lparr>rq_method = ''POST'',
                rq_url = ''https://api.yesapikey.com/v1/chat/completions'',
                rq_headers =
                  (case getenv env ''OPENAI_API_KEY'' of
                     None \<Rightarrow> []
                   | Some credential \<Rightarrow>
                       if credential = [] then []
                       else [(''Authorization'', ''Bearer '' @ credential),
                             (''Content-Type'', ''application/json'')]),
                rq_proxies = [(''http'', ''https://api.yesapikey.com/v1/chat/completions''),
                              (''https'', ''https://api.yesapikey.com/v1/chat/completions'')],
                rq_json =
                  JObj [(''model'', JStr (a_model_name a)),
                        (''messages'',
                         JArr [JObj [(''role'', JStr ''system''),
                                     (''content'', JStr (effective_prompt prompt (p_default_prompt self)))],
                               JObj [(''role'', JStr ''user''), (''content'', JStr markdown_content)]]),
                        (''temperature'', JInt 1), (''max_tokens'', JInt 100), (''top_p'', JInt 1)],
                rq_timeout = a_timeout a\<rparr>"
    unfolding req by blast
next
  assume h: "LLM_init n t env w0 = Inr self' \<and> nonempty (getenv env ''OPENAI_PROXY_URL'')"
  then have init: "LLM_init n t env w0 = Inr self'"
    and url: "nonempty (getenv env ''OPENAI_PROXY_URL'')" by simp_all
  let ?cl = "llm_CustomHTTPClient (getenv env ''OPENAI_API_KEY'') (getenv env ''OPENAI_PROXY_URL'') n t"
  have cl: "client self' = Custom ?cl" "c_retries ?cl = retry_strategy n"
    using llm_init_client [OF init] url by simp_all
  have f: "fmt k = (case k of None \<Rightarrow> ''None'' | Some credential \<Rightarrow> credential)" for k
    by (cases k) simp_all
  have p: "proxies_for u = (case u of None \<Rightarrow> [] | Some url \<Rightarrow> [(''http'', url), (''https'', url)])"
    if "nonempty u" for u
    using that by (cases u) (simp_all add: proxies_for_def)
  have req: "prepare_request ?cl ''POST'' API_URL
            (llm_data (conversation (effective_prompt prompt (default_prompt self')) markdown_content))
            (c_timeout ?cl) =
         \<lparr>rq_method = ''POST'',
                rq_url = ''https://api.yesapikey.com/v1/chat/completions'',
                rq_headers =
                  [(''Authorization'',
                    ''Bearer '' @ (case getenv env ''OPENAI_API_KEY'' of
                                     None \<Rightarrow> ''None''
                                   | Some credential \<Rightarrow> credential)),
                   (''Content-Type'', ''application/json'')],
                rq_proxies =
                  (case getenv env ''OPENAI_PROXY_URL'' of
                     None \<Rightarrow> []
                   | Some url \<Rightarrow> [(''http'', url), (''https'', url)]),
                rq_json =
                  JObj [(''model'', JStr ''gpt-4o-mini''),
                        (''messages'',
                         JArr [JObj [(''role'', JStr ''system''),
                                     (''content'', JStr (effective_prompt prompt (default_prompt self')))],
                               JObj [(''role'', JStr ''user''), (''content'', JStr markdown_content)]]),
                        (''temperature'', JInt 1), (''max_tokens'', JInt 1000), (''top_p'', JInt 1)],
                rq_timeout = t\<rparr>"
    by (simp add: prepare_request_def llm_CustomHTTPClient_def p [OF url] f [symmetric] API_URL_def
          llm_data_def MODEL_NAME_def conversation_def)
  from daily_report_requests [OF cl, of markdown_content prompt w]
  obtain m where "m \<le> n"
    "sent (snd (snd (generate_daily_report self' markdown_content prompt False w))) =
       sent w @ replicate (Suc m)
         (prepare_request ?cl ''POST'' API_URL
            (llm_data (conversation (effective_prompt prompt (default_prompt self')) markdown_content))
            (c_timeout ?cl))"
    by blast
  then show "\<exists>m\<le>n.
           sent (snd (snd (generate_daily_report self' markdown_content prompt False w))) =
             sent w @ replicate (Suc m)
               \<lparr>rq_method = ''POST'',
                rq_url = ''https://api.yesapikey.com/v1/chat/completions'',
                rq_headers =
                  [(''Authorization'',
                    ''Bearer '' @ (case getenv env ''OPENAI_API_KEY'' of
                                     None \<Rightarrow> ''None''
                                   | Some credential \<Rightarrow> credential)),
                   (''Content-Type'', ''application/json'')],
                rq_proxies =
                  (case getenv env ''OPENAI_PROXY_URL'' of
                     None \<Rightarrow> []
                   | Some url \<Rightarrow> [(''http'', url), (''https'', url)]),
                rq_json =
                  JObj [(''model'', JStr ''gpt-4o-mini''),
                        (''messages'',
                         JArr [JObj [(''role'', JStr ''system''),
                                     (''content'', JStr (effective_prompt prompt (default_prompt self')))],
                               JObj [(''role'', JStr ''user''), (''content'', JStr markdown_content)]]),
                        (''temperature'', JInt 1), (''max_tokens'', JInt 1000), (''top_p'', JInt 1)],
                rq_timeout = t\<rparr>"
    unfolding req by blast
qed

theorem forwarded_request_as_sent_witness:
  "proxy_LLM_init (args_for ''yesapi'') with_key idle_world = Inr yesapi_gateway
   \<and> set (map rq_headers (sent (snd (snd (generate_github_daily_report yesapi_gateway example_digest
        None False answering_world))))) =
       {[(''Authorization'', ''Bearer sk-test''), (''Content-Type'', ''application/json'')]}
   \<and> set (map rq_json (sent (snd (snd (generate_github_daily_report yesapi_gateway example_digest
        None False answering_world))))) =
       {JObj [(''model'', JStr ''gpt-4o-mini''),
              (''messages'',
               JArr [JObj [(''role'', JStr ''system''), (''content'', JStr ''Summarize the following:'')],
                     JObj [(''role'', JStr ''user''), (''content'', JStr example_digest)]]),
              (''temperature'', JInt 1), (''max_tokens'', JInt 100), (''top_p'', JInt 1)]}
   \<and> LLM_init 5 30 with_proxy idle_world = Inr llm_proxy_gateway
   \<and> nonempty (getenv with_proxy ''OPENAI_PROXY_URL'')
   \<and> set (map rq_headers (sent (snd (snd (generate_daily_report llm_proxy_gateway example_digest
        None False answering_world))))) =
       {[(''Authorization'', ''Bearer sk-test''), (''Content-Type'', ''application/json'')]}
   \<and> set (map rq_json (sent (snd (snd (generate_daily_report llm_proxy_gateway example_digest
        None False answering_world))))) =
       {JObj [(''model'', JStr ''gpt-4o-mini''),
              (''messages'',
               JArr [JObj [(''role'', JStr ''system''), (''content'', JStr ''Summarize the following:'')],
                     JObj [(''role'', JStr ''user''), (''content'', JStr example_digest)]]),
              (''temperature'', JInt 1), (''max_tokens'', JInt 1000), (''top_p'', JInt 1)]}"
proof -
  have init: "proxy_LLM_init (args_for ''yesapi'') with_key idle_world = Inr yesapi_gateway"
    "LLM_init 5 30 with_proxy idle_world = Inr llm_proxy_gateway"
    using init_yesapi init_llm_proxy by (simp_all add: idle_world_def)
  have s: "sent answering_world = []" by (simp add: answering_world_def scripted_def)
  have d: "a_model_name (args_for ''yesapi'') = ''gpt-4o-mini''"
      "p_default_prompt yesapi_gateway = ''Summarize the following:''"
      "default_prompt llm_proxy_gateway = ''Summarize the following:''"
      "getenv with_proxy ''OPENAI_API_KEY'' = Some ''sk-test''"
    by (simp_all add: args_for_def proxy_defaults_def yesapi_gateway_def example_prompt_def
          llm_proxy_gateway_def with_proxy_def)
  show ?thesis
    using
      forwarded_request_as_sent [of "args_for ''yesapi''" with_key idle_world yesapi_gateway
        example_digest None answering_world 5 30 llm_proxy_gateway]
      forwarded_request_as_sent [of "args_for ''yesapi''" with_proxy idle_world yesapi_gateway
        example_digest None answering_world 5 30 llm_proxy_gateway]
      init s d
    by (auto simp: effective_prompt_def)
qed

text \<open>
  Claim C8 as stated takes every Forwarded call. A \<^verbatim>\<open>yesapi\<close> gateway of
  \<^verbatim>\<open>proxy_llm.py\<close> built while \<^verbatim>\<open>OPENAI_API_KEY\<close> is not set is built without error, and
  the one request of its call has no header from the constructor, so no
  \<^verbatim>\<open>Authorization\<close>.
\<close>

theorem missing_credential_counterexample:
  "proxy_LLM_init (args_for ''yesapi'') without_key idle_world = Inr keyless_gateway
   \<and> map rq_headers (sent (snd (snd (generate_github_daily_report keyless_gateway example_digest
        None False answering_world)))) = [[]]"
proof -
  let ?cl = "proxy_CustomHTTPClient None (Some API_URL) 5 2000"
  have init: "proxy_LLM_init (args_for ''yesapi'') without_key idle_world = Inr keyless_gateway"
    using init_keyless by (simp add: idle_world_def)
  have cl: "p_client keyless_gateway = Some (Custom ?cl)" "c_retries ?cl = retry_strategy 5"
    by (simp_all add: keyless_gateway_def)
  have ty: "p_model_type keyless_gateway \<noteq> ''openai''" by (simp add: keyless_gateway_def)
  have ok: "http_answers answering_world 0 200 (forwarded_body ''Two changes landed.'')"
    by (simp add: answering_world_def scripted_answers)
  have s: "sent answering_world = []" by (simp add: answering_world_def scripted_def)
  show ?thesis
    using init github_report_http_sent [OF cl _ _ ok ty, of example_digest None] s
    by (simp add: prepare_request_def proxy_CustomHTTPClient_def)
qed

subsection \<open>The two entry points of the proxy gateway\<close>

text \<open>
  Claim C9. For every gateway object, digest, prompt, dry-run flag and world,
  \<open>generate_hn_daily_report\<close> and \<open>generate_github_daily_report\<close> return the same
  value, leave the same gateway object and leave the same world (requests sent, SDK
  calls, files, log records).
\<close>

theorem hn_report_same_as_github_report:
  "generate_hn_daily_report self markdown_content prompt dry_run w =
   generate_github_daily_report self markdown_content prompt dry_run w"
  by (simp add: generate_hn_daily_report_def generate_github_daily_report_def)

subsection \<open>What a dry run of the proxy gateway leaves behind\<close>

text \<open>
  Claim C10, as the code has it. For a gateway built by the constructor of
  \<^verbatim>\<open>proxy_llm.py\<close>, every dry run leaves the gateway object as it was, the default
  prompt in memory included. The path the dry run writes to is the path the
  constructor read the default prompt from. When the file can be opened for writing
  and every character of the dump can be encoded, the file then holds the dump of the
  conversation (\<open>conversation_text\<close>) instead of the template. When the file cannot be
  opened, the files stay as they were; when a character cannot be encoded, the file
  is left with a proper initial part of the dump.
\<close>

theorem dry_run_overwrites_prompt_file:
  assumes "proxy_LLM_init a env w0 = Inr self"
  shows "fst (snd (generate_github_daily_report self markdown_content prompt True w)) = self
   \<and> fst (snd (generate_hn_daily_report self markdown_content prompt True w)) = self
   \<and> p_prompt_file_path self = a_prompt_file_path a
   \<and> files w0 (a_prompt_file_path a) = Some (p_default_prompt self)
   \<and> (writable w (a_prompt_file_path a)
        \<and> list_all (encodable w)
             (conversation_text (effective_prompt prompt (p_default_prompt self)) markdown_content) \<longrightarrow>
        files (snd (snd (generate_github_daily_report self markdown_content prompt True w))) (a_prompt_file_path a)
          = Some (conversation_text (effective_prompt prompt (p_default_prompt self)) markdown_content)
        \<and> files (snd (snd (generate_hn_daily_report self markdown_content prompt True w))) (a_prompt_file_path a)
          = Some (conversation_text (effective_prompt prompt (p_default_prompt self)) markdown_content))
   \<and> (\<not> writable w (a_prompt_file_path a) \<longrightarrow>
        files (snd (snd (generate_github_daily_report self markdown_content prompt True w))) = files w
        \<and> files (snd (snd (generate_hn_daily_report self markdown_content prompt True w))) = files w)
   \<and> (writable w (a_prompt_file_path a)
        \<and> \<not> list_all (encodable w)
             (conversation_text (effective_prompt prompt (p_default_prompt self)) markdown_content) \<longrightarrow>
        (\<exists>part rest. rest \<noteq> []
           \<and> conversation_text (effective_prompt prompt (p_default_prompt self)) markdown_content
               = part @ rest
           \<and> files (snd (snd (generate_github_daily_report self markdown_content prompt True w)))
                (a_prompt_file_path a) = Some part
           \<and> files (snd (snd (generate_hn_daily_report self markdown_content prompt True w)))
                (a_prompt_file_path a) = Some part))"
proof -
  have g: "\<not> list_all (encodable w)
             (conversation_text (effective_prompt prompt (p_default_prompt self)) markdown_content) \<Longrightarrow>
        \<exists>part rest. rest \<noteq> []
              \<and> conversation_text (effective_prompt prompt (p_default_prompt self)) markdown_content
                  = part @ rest
              \<and> concat (takeWhile (list_all (encodable w))
                     (iterencode 0 (conversation (effective_prompt prompt (p_default_prompt self))
                        markdown_content)))
                  = part"
    using cut_short [of "encodable w" "effective_prompt prompt (p_default_prompt self)" markdown_content]
    by blast
  show ?thesis
    using proxy_init_fields [OF assms] g
    by (simp add: hn_is_github github_dry_run)
qed

theorem dry_run_overwrites_prompt_file_witness:
  "proxy_LLM_init (args_for ''yesapi'') with_key idle_world = Inr yesapi_gateway
   \<and> a_prompt_file_path (args_for ''yesapi'') = ''prompts/github_openai_report_prompt.txt''
   \<and> files idle_world ''prompts/github_openai_report_prompt.txt'' = Some ''Summarize the following:''
   \<and> p_default_prompt (fst (snd (generate_github_daily_report yesapi_gateway example_digest
        (Some tricky_text) True idle_world))) = ''Summarize the following:''
   \<and> writable idle_world ''prompts/github_openai_report_prompt.txt''
   \<and> list_all (encodable idle_world) (conversation_text tricky_text example_digest)
   \<and> files (snd (snd (generate_github_daily_report yesapi_gateway example_digest (Some tricky_text) True
        idle_world))) ''prompts/github_openai_report_prompt.txt'' = Some tricky_file
   \<and> \<not> writable read_only_world ''prompts/github_openai_report_prompt.txt''
   \<and> files (snd (snd (generate_github_daily_report yesapi_gateway example_digest (Some tricky_text) True
        read_only_world))) ''prompts/github_openai_report_prompt.txt'' = Some ''Summarize the following:''
   \<and> \<not> list_all (encodable ascii_world) (conversation_text example_prompt accented_text)
   \<and> files (snd (snd (generate_hn_daily_report yesapi_gateway accented_text None True
        ascii_world))) ''prompts/github_openai_report_prompt.txt'' = Some stopped_file"
proof -
  have init: "proxy_LLM_init (args_for ''yesapi'') with_key idle_world = Inr yesapi_gateway"
    using init_yesapi by (simp add: idle_world_def)
  have w: "writable idle_world p" "encodable idle_world c" "files idle_world = example_files"
    "\<not> writable read_only_world p" "files read_only_world = example_files"
    "writable ascii_world p" "encodable ascii_world = (\<lambda>c. (of_char c :: nat) < 128)"
    for p c
    by (simp_all add: read_only_world_def read_only_def ascii_world_def idle_world_def scripted_def)
  have all: "list_all (encodable idle_world) t" for t
    by (simp add: w list_all_iff)
  have g: "p_prompt_file_path yesapi_gateway = ''prompts/github_openai_report_prompt.txt''"
    "p_default_prompt yesapi_gateway = ''Summarize the following:''"
    "a_prompt_file_path (args_for ''yesapi'') = ''prompts/github_openai_report_prompt.txt''"
    by (simp_all add: yesapi_gateway_def args_for_def proxy_defaults_def example_prompt_def)
  have e: "effective_prompt (Some tricky_text) d = tricky_text" "effective_prompt None d = d" for d
    by (simp_all add: effective_prompt_def tricky_text_def)
  have bad: "\<not> list_all (\<lambda>c. (of_char c :: nat) < 128) (conversation_text example_prompt accented_text)"
    by (simp add: conversation_text_def accented_text_def encode_basestring_def escape_char_def)
  have old: "example_files ''prompts/github_openai_report_prompt.txt'' = Some ''Summarize the following:''"
    by (simp add: example_files_def example_prompt_def)
  have p: "''Summarize the following:'' = example_prompt" by (simp add: example_prompt_def)
  show ?thesis
    using init
      dry_run_overwrites_prompt_file [OF init, of example_digest "Some tricky_text" idle_world]
      dry_run_overwrites_prompt_file [OF init, of example_digest "Some tricky_text" read_only_world]
      dry_run_overwrites_prompt_file [OF init, of accented_text None ascii_world]
    by (simp add: w all g e old example_file_texts github_dry_run hn_is_github)
       (simp add: p bad example_file_texts)
qed

text \<open>
  Claim C10 as stated takes every dry run. Where no file can be opened for writing the
  call raises OSError and the file still holds the template; where the encoding has
  the ASCII characters only and the digest has an accented one, the call raises
  UnicodeEncodeError and the file holds the dump up to the colon before the digest.
\<close>

theorem failed_write_counterexample:
  "fst (generate_github_daily_report yesapi_gateway example_digest None True read_only_world)
     = Inl OSError
   \<and> files (snd (snd (generate_github_daily_report yesapi_gateway example_digest None True
        read_only_world))) ''prompts/github_openai_report_prompt.txt''
     = Some ''Summarize the following:''
   \<and> fst (generate_github_daily_report yesapi_gateway accented_text None True ascii_world)
     = Inl UnicodeEncodeError
   \<and> files (snd (snd (generate_github_daily_report yesapi_gateway accented_text None True
        ascii_world))) ''prompts/github_openai_report_prompt.txt''
     = Some stopped_file"
proof -
  have w: "\<not> writable read_only_world p" "files read_only_world = example_files"
    "writable ascii_world p" "encodable ascii_world = (\<lambda>c. (of_char c :: nat) < 128)"
    for p
    by (simp_all add: read_only_world_def read_only_def ascii_world_def idle_world_def scripted_def)
  have g: "p_prompt_file_path yesapi_gateway = ''prompts/github_openai_report_prompt.txt''"
    "p_default_prompt yesapi_gateway = example_prompt"
    by (simp_all add: yesapi_gateway_def)
  have bad: "\<not> list_all (\<lambda>c. (of_char c :: nat) < 128) (conversation_text example_prompt accented_text)"
    by (simp add: conversation_text_def accented_text_def encode_basestring_def escape_char_def)
  have old: "example_files ''prompts/github_openai_report_prompt.txt'' = Some ''Summarize the following:''"
    by (simp add: example_files_def example_prompt_def)
  show ?thesis
    by (simp add: github_dry_run w g bad old effective_prompt_def example_file_texts)
qed

end
